theory Spec2Isabelle
  imports Main "HOL-Library.Sublist"
begin

section \<open>The vanilla shell: router, microfrontend loader and error boundary\<close>

text \<open>
  A shallow embedding of \<^verbatim>\<open>shell-vanilla/src/router.js\<close>, \<^verbatim>\<open>shell-vanilla/src/mfe-loader.js\<close>
  and \<^verbatim>\<open>error-boundary.js\<close>. An \<^verbatim>\<open>async\<close> function becomes a function from the state
  before the call to the settled outcome of its promise (\<open>Inl\<close> the rejection value,
  \<open>Inr\<close> the fulfilment value) and the state after it; \<^verbatim>\<open>try\<close>/\<^verbatim>\<open>catch\<close> is a case
  distinction on that outcome. Calls run one after the other (each is awaited before the
  next starts), and every callback that belongs to code outside the shell (route handlers,
  the federation library, a remote's mount and unmount functions) is taken as a function
  that settles and that does not call back into the router or the loader.
\<close>

subsection \<open>JavaScript values as far as the shell observes them\<close>

text \<open>
  A thrown (or rejected) value. The shell reads its truthiness, its \<^verbatim>\<open>message\<close> and its
  \<^verbatim>\<open>stack\<close>: \<open>Nullish\<close> is \<^verbatim>\<open>null\<close> or \<^verbatim>\<open>undefined\<close> (reading a property of it throws),
  \<open>OtherValue t\<close> is any other value without those two properties (\<open>t\<close> its truthiness),
  \<open>ErrorObj\<close> is an \<^verbatim>\<open>Error\<close> object with its name, message and stack.
\<close>

datatype thrown =
    Nullish
  | OtherValue bool
  | ErrorObj (ename: string) (emessage: string) (estack: "string option")

text \<open>\<^verbatim>\<open>new Error(msg)\<close>; of the engine's stack text only the header line is kept.\<close>

definition new_Error :: "string \<Rightarrow> thrown" where
  "new_Error msg = ErrorObj ''Error'' msg (Some (''Error: '' @ msg))"

definition new_TypeError :: "string \<Rightarrow> thrown" where
  "new_TypeError msg = ErrorObj ''TypeError'' msg (Some (''TypeError: '' @ msg))"

definition new_ReferenceError :: "string \<Rightarrow> thrown" where
  "new_ReferenceError msg = ErrorObj ''ReferenceError'' msg (Some (''ReferenceError: '' @ msg))"

text \<open>
  The template fragment \<^verbatim>\<open>${error.message}\<close>: a \<^verbatim>\<open>TypeError\<close> on \<^verbatim>\<open>null\<close>/\<^verbatim>\<open>undefined\<close>,
  the text \<^verbatim>\<open>undefined\<close> when the property is absent.
\<close>

definition message_text :: "thrown \<Rightarrow> thrown + string" where
  "message_text error =
     (case error of
        Nullish \<Rightarrow> Inl (new_TypeError ''Cannot read properties of null (reading 'message')'')
      | OtherValue t \<Rightarrow> Inr ''undefined''
      | ErrorObj n msg st \<Rightarrow> Inr msg)"

text \<open>A value of a property that the shell tests with \<^verbatim>\<open>typeof v === 'function'\<close>:
  \<open>Missing\<close> is \<^verbatim>\<open>undefined\<close> (or any falsy value), \<open>NonFunction\<close> a truthy value that is
  not callable.\<close>

datatype 'f member = Missing | NonFunction | Function 'f

text \<open>\<^verbatim>\<open>a || b\<close> on such values.\<close>

definition js_or :: "'f member \<Rightarrow> 'f member \<Rightarrow> 'f member" where
  "js_or a b = (case a of Missing \<Rightarrow> b | NonFunction \<Rightarrow> a | Function f \<Rightarrow> a)"

text \<open>A name between double quotes, as the log and error templates write it.\<close>

definition quoted :: "string \<Rightarrow> string" where
  "quoted s = CHR 0x22 # s @ [CHR 0x22]"

subsection \<open>The document\<close>

type_synonym elem = nat

text \<open>Markup below a container: what \<^verbatim>\<open>createElement\<close>/\<^verbatim>\<open>appendChild\<close> build. A button's
  \<^verbatim>\<open>onclick\<close> closure is not part of the tree.\<close>

datatype html =
    TextNode string
  | Element (tag: string) (className: string) (attributes: "(string \<times> string) list")
      (childNodes: "html list")

record node =
  node_id :: string
  parentNode :: bool
  innerHTML :: "html list"

text \<open>Every element reference denotes a node; \<open>next_elem\<close> is the reference that the next
  \<^verbatim>\<open>document.createElement\<close> returns.\<close>

record dom =
  nodes :: "elem \<Rightarrow> node"
  next_elem :: elem

definition set_innerHTML :: "elem \<Rightarrow> html list \<Rightarrow> dom \<Rightarrow> dom" where
  "set_innerHTML e kids d = d\<lparr>nodes := (nodes d)(e := (nodes d e)\<lparr>innerHTML := kids\<rparr>)\<rparr>"

definition appendChild :: "elem \<Rightarrow> html \<Rightarrow> dom \<Rightarrow> dom" where
  "appendChild e kid d =
     d\<lparr>nodes := (nodes d)(e := (nodes d e)\<lparr>innerHTML := innerHTML (nodes d e) @ [kid]\<rparr>)\<rparr>"

subsection \<open>The world outside the two singletons\<close>

text \<open>Calls of callbacks (route handlers, library functions, a module's mount function, an
  instance's \<^verbatim>\<open>unmount\<close> or \<^verbatim>\<open>destroy\<close>), recorded in the order in which the shell makes
  them.\<close>

datatype call =
    CallHandler string
  | CallInitFederation
  | CallLoadRemoteModule string string
  | CallMount elem
  | CallUnmount string
  | CallDestroy string

datatype event =
    ConsoleLog string
  | ConsoleWarn string
  | ConsoleError string thrown
  | PushState string
  | AddEventListener string
  | Call call

text \<open>
  \<open>document\<close> is the page, \<open>ext\<close> whatever state the code outside the shell keeps,
  \<open>pathname\<close> is \<^verbatim>\<open>window.location.pathname\<close>, \<open>clock\<close> the time that \<^verbatim>\<open>new Date()\<close> reads,
  \<open>other_origin\<close> says which URLs resolve to another origin than the page's,
  and \<open>trace\<close> lists in order the console lines, history pushes, listener registrations
  and callback calls of the shell (the source has no such list: it is the observation of
  these effects, which code outside the shell cannot alter).
\<close>

record 'x world =
  document :: dom
  ext :: 'x
  pathname :: string
  clock :: nat
  other_origin :: "string \<Rightarrow> bool"
  trace :: "event list"

definition emit :: "event \<Rightarrow> 'x world \<Rightarrow> 'x world" where
  "emit ev w = w\<lparr>trace := trace w @ [ev]\<rparr>"

text \<open>A function of the code outside the shell: it may change the document and its own
  state, and settles with a value or a thrown one.\<close>

type_synonym ('x, 'a) ext_fn = "dom \<times> 'x \<Rightarrow> (thrown + 'a) \<times> dom \<times> 'x"

text \<open>\<^verbatim>\<open>await f(...)\<close> for such a function.\<close>

definition call_ext :: "call \<Rightarrow> ('x, 'a) ext_fn \<Rightarrow> 'x world \<Rightarrow> (thrown + 'a) \<times> 'x world" where
  "call_ext c f w =
     (case f (document w, ext w) of
        (res, d, x) \<Rightarrow> (res, w\<lparr>document := d, ext := x, trace := trace w @ [Call c]\<rparr>))"

subsection \<open>router.js\<close>

type_synonym 'x handler = "string \<Rightarrow> ('x, unit) ext_fn"

record 'x Router =
  routes :: "string \<rightharpoonup> 'x handler"
  currentRoute :: "string option"
  isInitialized :: bool

definition Router_new :: "'x Router" where
  "Router_new = \<lparr>routes = Map.empty, currentRoute = None, isInitialized = False\<rparr>"

text \<open>\<^verbatim>\<open>register(path, handler)\<close>; the handler argument is any value.\<close>

definition register :: "string \<Rightarrow> 'x handler member \<Rightarrow> 'x Router \<Rightarrow> thrown + 'x Router" where
  "register path handler r =
     (case handler of
        Function h \<Rightarrow> Inr (r\<lparr>routes := (routes r)(path \<mapsto> h)\<rparr>)
      | _ \<Rightarrow> Inl (new_Error (''Handler for route '' @ quoted path @ '' must be a function'')))"

text \<open>A URL that starts with exactly one slash (not followed by a slash or a backslash)
  is a path on the page's own origin.\<close>

definition path_absolute :: "string \<Rightarrow> bool" where
  "path_absolute url =
     (case url of
        [] \<Rightarrow> False
      | c # rest \<Rightarrow>
          c = CHR ''/'' \<and>
          (case rest of [] \<Rightarrow> True | c2 # rest2 \<Rightarrow> c2 \<noteq> CHR ''/'' \<and> c2 \<noteq> CHR 0x5C))"

text \<open>\<^verbatim>\<open>window.history.pushState({ path }, '', path)\<close>: it throws a \<^verbatim>\<open>SecurityError\<close> for a
  URL of another origin, and else adds the history entry and changes the location.\<close>

definition security_error :: thrown where
  "security_error =
     ErrorObj ''SecurityError''
       ''Failed to execute 'pushState' on 'History': the URL is of another origin.'' None"

definition pushState :: "string \<Rightarrow> 'x world \<Rightarrow> thrown + 'x world" where
  "pushState path w =
     (if path_absolute path \<or> \<not> other_origin w path
      then Inr (w\<lparr>pathname := path, trace := trace w @ [PushState path]\<rparr>)
      else Inl security_error)"

text \<open>\<^verbatim>\<open>await handler(path)\<close> with \<^verbatim>\<open>handler = this.routes.get(path)\<close>; calling
  \<^verbatim>\<open>undefined\<close> is a \<^verbatim>\<open>TypeError\<close>.\<close>

definition run_handler :: "'x Router \<Rightarrow> string \<Rightarrow> 'x world \<Rightarrow> (thrown + unit) \<times> 'x world" where
  "run_handler r path w =
     (case routes r path of
        None \<Rightarrow> (Inl (new_TypeError ''handler is not a function''), w)
      | Some h \<Rightarrow> call_ext (CallHandler path) (h path) w)"

text \<open>Lines 33 to 44 of \<^verbatim>\<open>navigate\<close>: the path that is routed, and the state once the
  history entry is pushed and \<^verbatim>\<open>currentRoute\<close> is stored; when \<^verbatim>\<open>pushState\<close> throws,
  \<^verbatim>\<open>currentRoute\<close> is not stored.\<close>

definition route_path :: "'x Router \<Rightarrow> string \<Rightarrow> string" where
  "route_path r path = (if path \<in> dom (routes r) then path else ''/'')"

definition enter_route ::
  "string \<Rightarrow> bool \<Rightarrow> 'x Router \<times> 'x world \<Rightarrow> (thrown + unit) \<times> 'x Router \<times> 'x world"
where
  "enter_route path skipPushState s =
     (case s of (r, w) \<Rightarrow>
        let w1 = (if path \<in> dom (routes r) then w
                  else emit (ConsoleWarn (''Route '' @ quoted path @ '' not found, redirecting to home'')) w);
            p = route_path r path
        in if skipPushState then (Inr (), r\<lparr>currentRoute := Some p\<rparr>, w1)
           else (case pushState p w1 of
                   Inl error \<Rightarrow> (Inl error, r, w1)
                 | Inr w2 \<Rightarrow> (Inr (), r\<lparr>currentRoute := Some p\<rparr>, w2)))"

text \<open>
  \<^verbatim>\<open>async navigate(path, skipPushState = false)\<close>. The recovery call \<^verbatim>\<open>this.navigate('/')\<close>
  is not awaited and its promise is dropped; an error of \<^verbatim>\<open>pushState\<close> and the error
  rethrown for the home routes are caught by the outer \<^verbatim>\<open>catch\<close>, which logs the error and
  falls off the end of the function.
\<close>

function navigate ::
  "string \<Rightarrow> bool \<Rightarrow> 'x Router \<times> 'x world \<Rightarrow> (thrown + unit) \<times> 'x Router \<times> 'x world"
where
  "navigate path skipPushState s =
     (let p = route_path (fst s) path;
          er = enter_route path skipPushState s;
          s1 = snd er
      in case fst er of
           Inl error \<Rightarrow>
             (Inr (), fst s1, emit (ConsoleError ''Critical navigation error:'' error) (snd s1))
         | Inr entered \<Rightarrow>
             (let hr = run_handler (fst s1) p (snd s1)
              in case fst hr of
                   Inr u \<Rightarrow> (Inr (), fst s1, snd hr)
                 | Inl error \<Rightarrow>
                     (let w3 = emit (ConsoleError (''Error executing handler for route '' @
                                       quoted p @ '':'') error) (snd hr)
                      in if p \<noteq> ''/'' \<and> p \<noteq> ''/home''
                         then (Inr (), snd (navigate ''/'' False
                                 (fst s1,
                                  emit (ConsoleLog ''Attempting to recover by navigating to home'') w3)))
                         else (Inr (), fst s1,
                               emit (ConsoleError ''Critical navigation error:'' error) w3))))"
  by pat_completeness auto
termination
  by (relation "measure (\<lambda>(path, skip, s). if route_path (fst s) path \<noteq> ''/'' \<and> route_path (fst s) path \<noteq> ''/home'' then 1 else 0)")
     (auto simp: route_path_def enter_route_def split: prod.splits if_splits)

declare navigate.simps [simp del]

text \<open>The handler call of lines 47 to 49 on the routed path \<open>p\<close>, made in the state that
  lines 33 to 44 leave.\<close>

definition handled ::
  "'x Router \<Rightarrow> string \<Rightarrow> bool \<Rightarrow> 'x world \<Rightarrow> string \<Rightarrow> (thrown + unit) \<times> 'x world"
where
  "handled r path skipPushState w p =
     run_handler (r\<lparr>currentRoute := Some p\<rparr>) p
       (snd (snd (enter_route path skipPushState (r, w))))"

text \<open>\<^verbatim>\<open>init()\<close>; the listener it registers calls \<^verbatim>\<open>navigate(path, true)\<close> on each
  \<^verbatim>\<open>popstate\<close> event.\<close>

definition init :: "'x Router \<times> 'x world \<Rightarrow> 'x Router \<times> 'x world" where
  "init s =
     (case s of (r, w) \<Rightarrow>
        if isInitialized r then (r, emit (ConsoleWarn ''Router already initialized'') w)
        else
          (let w1 = emit (AddEventListener ''popstate'') w;
               initialPath = pathname w1;
               s2 = snd (navigate initialPath True (r, w1))
           in ((fst s2)\<lparr>isInitialized := True\<rparr>, snd s2)))"

definition getCurrentRoute :: "'x Router \<Rightarrow> string option" where
  "getCurrentRoute r = currentRoute r"

definition hasRoute :: "'x Router \<Rightarrow> string \<Rightarrow> bool" where
  "hasRoute r path = (path \<in> dom (routes r))"

subsection \<open>error-boundary.js\<close>

text \<open>The options object of \<^verbatim>\<open>createErrorDisplay\<close>: \<open>None\<close> is an absent property, which the
  destructuring replaces by its default; \<open>opt_error\<close> is any value (\<open>Nullish\<close> when absent);
  \<open>opt_onRetry\<close> and \<open>opt_onGoHome\<close> say whether a callback is passed (it runs only when
  its button is clicked).\<close>

record errorDisplayOptions =
  opt_title :: "string option"
  opt_message :: "string option"
  opt_error :: thrown
  opt_context :: "string option"
  opt_onRetry :: bool
  opt_onGoHome :: bool

text \<open>\<^verbatim>\<open>el.textContent = s\<close> on a new element.\<close>

definition textContent :: "string \<Rightarrow> html list" where
  "textContent s = (if s = [] then [] else [TextNode s])"

text \<open>The warning sign with its variation selector, in UTF-8.\<close>

definition warning_icon :: string where
  "warning_icon = [CHR 0xE2, CHR 0x9A, CHR 0xA0, CHR 0xEF, CHR 0xB8, CHR 0x8F]"

text \<open>\<^verbatim>\<open>if (error)\<close>, \<^verbatim>\<open>error.message || 'Unknown error'\<close> and \<^verbatim>\<open>error.stack\<close>.\<close>

definition truthy :: "thrown \<Rightarrow> bool" where
  "truthy error = (case error of Nullish \<Rightarrow> False | OtherValue t \<Rightarrow> t | ErrorObj n m st \<Rightarrow> True)"

definition message_or_unknown :: "thrown \<Rightarrow> string" where
  "message_or_unknown error =
     (case error of ErrorObj n m st \<Rightarrow> (if m = [] then ''Unknown error'' else m)
      | _ \<Rightarrow> ''Unknown error'')"

definition stack_of :: "thrown \<Rightarrow> string option" where
  "stack_of error =
     (case error of ErrorObj n m (Some st) \<Rightarrow> (if st = [] then None else Some st) | _ \<Rightarrow> None)"

definition error_details :: "thrown \<Rightarrow> string \<Rightarrow> html" where
  "error_details error context' =
     (let summary = Element ''summary'' [] [] (textContent ''Technical Details'');
          errorMessage = Element ''p'' ''error-message'' [] (textContent (message_or_unknown error));
          errorContext = Element ''p'' ''error-context'' [] (textContent (''Context: '' @ context'));
          detailsContent = Element ''div'' ''error-details-content'' []
            (case stack_of error of
               Some st \<Rightarrow> [errorMessage, errorContext, Element ''pre'' ''error-stack'' [] (textContent st)]
             | None \<Rightarrow> [errorMessage, errorContext])
      in Element ''details'' ''error-details'' [] [summary, detailsContent])"

definition createErrorDisplay :: "errorDisplayOptions \<Rightarrow> html" where
  "createErrorDisplay opts =
     (let title = (case opt_title opts of None \<Rightarrow> ''Something Went Wrong'' | Some t \<Rightarrow> t);
          message = (case opt_message opts of None \<Rightarrow> ''An unexpected error occurred.'' | Some m \<Rightarrow> m);
          error = opt_error opts;
          context' = (case opt_context opts of None \<Rightarrow> ''Application'' | Some c \<Rightarrow> c);
          icon = Element ''div'' ''error-icon'' [] [TextNode warning_icon];
          titleElement = Element ''h2'' ''error-title'' [] (textContent title);
          messageElement = Element ''p'' ''error-description'' [] (textContent message);
          detailsElement = (if truthy error then [error_details error context'] else []);
          retryButton = (if opt_onRetry opts
             then [Element ''button'' ''error-button error-button-primary'' [] (textContent ''Try Again'')]
             else []);
          homeButton = (if opt_onGoHome opts
             then [Element ''button'' ''error-button error-button-secondary'' [] (textContent ''Go to Home'')]
             else []);
          actions = retryButton @ homeButton;
          actionsContainer = (if length actions > 0 then [Element ''div'' ''error-actions'' [] actions] else [])
      in Element ''div'' ''error-boundary'' [(''role'', ''alert''), (''aria-live'', ''assertive'')]
           ([icon, titleElement, messageElement] @ detailsElement @ actionsContainer))"

definition createMFEFallback :: "string \<Rightarrow> thrown \<Rightarrow> bool \<Rightarrow> bool \<Rightarrow> html" where
  "createMFEFallback mfeName error onRetry onGoHome =
     createErrorDisplay
       \<lparr>opt_title = Some (''Unable to Load '' @ mfeName),
        opt_message = Some (''The microfrontend '' @ quoted mfeName @
          '' could not be loaded. This might be because the service is not running or there's a network issue.''),
        opt_error = error,
        opt_context = Some ''MFE Loading'',
        opt_onRetry = onRetry,
        opt_onGoHome = onGoHome\<rparr>"

subsection \<open>mfe-loader.js: data\<close>

type_synonym options = "(string \<times> string) list"

text \<open>
  A no-argument teardown function: \<open>ClearContainer c\<close> is the closure that \<^verbatim>\<open>_bootstrapMFE\<close>
  builds over its \<^verbatim>\<open>container\<close>, \<open>RemoteFn f\<close> a function of the remote.
\<close>

datatype 'x teardown = ClearContainer elem | RemoteFn "('x, unit) ext_fn"

text \<open>What a mount function resolves to, and what the loader keeps as \<^verbatim>\<open>instance\<close>:
  a falsy value, or a value with its \<^verbatim>\<open>unmount\<close> and \<^verbatim>\<open>destroy\<close> properties.\<close>

datatype 'x mfeInstance =
    FalsyResult
  | Object "'x teardown member" "'x teardown member"

type_synonym 'x mountfn = "elem \<Rightarrow> options \<Rightarrow> ('x, 'x mfeInstance) ext_fn"

text \<open>A loaded module: \<^verbatim>\<open>mount\<close>, \<^verbatim>\<open>bootstrap\<close> and \<^verbatim>\<open>default?.mount\<close>.\<close>

record 'x remoteModule =
  mod_mount :: "'x mountfn member"
  mod_bootstrap :: "'x mountfn member"
  mod_default_mount :: "'x mountfn member"

text \<open>\<^verbatim>\<open>loadRemoteModule(name, exposed)\<close> of the federation library; \<open>None\<close> is a module that
  resolves to \<^verbatim>\<open>null\<close> or \<^verbatim>\<open>undefined\<close>.\<close>

type_synonym 'x loadfn = "string \<Rightarrow> string \<Rightarrow> ('x, 'x remoteModule option) ext_fn"

text \<open>
  What the loader takes from the browser and from \<^verbatim>\<open>vanilla-native-federation\<close>:
  which selector strings are valid, the first element that a valid selector matches in a
  document (if any), and the library's \<^verbatim>\<open>initFederation(manifest)\<close>.
\<close>

record 'x env =
  selector_valid :: "string \<Rightarrow> bool"
  first_match :: "string \<Rightarrow> dom \<Rightarrow> elem option"
  lib_initFederation :: "(string \<times> string) list \<Rightarrow> ('x, 'x loadfn) ext_fn"

text \<open>\<^verbatim>\<open>document.querySelector(sel)\<close>: a \<^verbatim>\<open>SyntaxError\<close> exception for an invalid selector,
  else the first match or \<^verbatim>\<open>null\<close>.\<close>

definition invalid_selector :: thrown where
  "invalid_selector =
     ErrorObj ''SyntaxError''
       ''Failed to execute 'querySelector' on 'Document': the selector is not valid.'' None"

definition document_querySelector :: "'x env \<Rightarrow> string \<Rightarrow> dom \<Rightarrow> thrown + elem option" where
  "document_querySelector env sel d =
     (if selector_valid env sel then Inr (first_match env sel d) else Inl invalid_selector)"

record 'x mfeMetadata =
  md_name :: string
  md_container :: elem
  md_instance :: "'x mfeInstance"
  md_loadedAt :: nat
  md_options :: options

record 'x MFELoader =
  loadedMFEs :: "string \<rightharpoonup> 'x mfeMetadata"
  currentMFE :: "string option"
  federationInitialized :: bool
  loadRemoteModule :: "'x loadfn option"

definition MFELoader_new :: "'x MFELoader" where
  "MFELoader_new =
     \<lparr>loadedMFEs = Map.empty, currentMFE = None, federationInitialized = False,
      loadRemoteModule = None\<rparr>"

text \<open>The \<^verbatim>\<open>containerSelector\<close> argument: a string, an \<^verbatim>\<open>HTMLElement\<close>, a falsy value that is
  not a string, or a truthy object that is not a DOM node; the last two with the text that
  a template renders them as.\<close>

datatype container_arg =
    Selector string
  | HTMLElement elem
  | FalsyArg string
  | NonNode string

definition arg_text :: "container_arg \<Rightarrow> string" where
  "arg_text c = (case c of Selector sel \<Rightarrow> sel | HTMLElement e \<Rightarrow> ''[object HTMLDivElement]''
                 | FalsyArg t \<Rightarrow> t | NonNode t \<Rightarrow> t)"

subsection \<open>mfe-loader.js: reads\<close>

definition getCurrentMFE :: "'x MFELoader \<Rightarrow> string option" where
  "getCurrentMFE l = currentMFE l"

definition isLoaded :: "'x MFELoader \<Rightarrow> string \<Rightarrow> bool" where
  "isLoaded l name = (name \<in> dom (loadedMFEs l))"

definition getMFEMetadata :: "'x MFELoader \<Rightarrow> string \<Rightarrow> 'x mfeMetadata option" where
  "getMFEMetadata l name = loadedMFEs l name"

subsection \<open>mfe-loader.js: unloadMFE\<close>

text \<open>Calling a teardown function. The default closure warns and empties its container.\<close>

definition invoke_teardown :: "call \<Rightarrow> 'x teardown \<Rightarrow> 'x world \<Rightarrow> (thrown + unit) \<times> 'x world" where
  "invoke_teardown c t w =
     (case t of
        ClearContainer container \<Rightarrow>
          (Inr (),
           (emit (ConsoleWarn ''No unmount method available, clearing container manually'')
              (emit (Call c) w))
            \<lparr>document := set_innerHTML container [] (document w)\<rparr>)
      | RemoteFn f \<Rightarrow> call_ext c f w)"

text \<open>Lines 100 to 104: \<^verbatim>\<open>unmount\<close> if it is a function, else \<^verbatim>\<open>destroy\<close> if it is one.\<close>

definition cleanup_instance :: "string \<Rightarrow> 'x mfeInstance \<Rightarrow> 'x world \<Rightarrow> (thrown + unit) \<times> 'x world" where
  "cleanup_instance name inst w =
     (case inst of
        FalsyResult \<Rightarrow> (Inr (), w)
      | Object (Function u) d \<Rightarrow> invoke_teardown (CallUnmount name) u w
      | Object um (Function d) \<Rightarrow> invoke_teardown (CallDestroy name) d w
      | Object um dm \<Rightarrow> (Inr (), w))"

definition unloadMFE ::
  "string \<Rightarrow> 'x MFELoader \<times> 'x world \<Rightarrow> (thrown + bool) \<times> 'x MFELoader \<times> 'x world"
where
  "unloadMFE name s =
     (case s of (l, w) \<Rightarrow>
        (case loadedMFEs l name of
           None \<Rightarrow> (Inr False, l, emit (ConsoleWarn (''MFE '' @ quoted name @ '' is not loaded'')) w)
         | Some mfeMetadata \<Rightarrow>
             (let w1 = emit (ConsoleLog (''Unloading MFE: '' @ name)) w;
                  cr = cleanup_instance name (md_instance mfeMetadata) w1
              in case fst cr of
                   Inl error \<Rightarrow>
                     (Inr False,
                      l\<lparr>loadedMFEs := (loadedMFEs l)(name := None)\<rparr>,
                      emit (ConsoleError (''Error unloading MFE '' @ quoted name @ '':'') error) (snd cr))
                 | Inr u \<Rightarrow>
                     (let w2 = snd cr;
                          container = md_container mfeMetadata;
                          w3 = (if parentNode (nodes (document w2) container)
                                then w2\<lparr>document := set_innerHTML container [] (document w2)\<rparr>
                                else w2);
                          l1 = l\<lparr>loadedMFEs := (loadedMFEs l)(name := None)\<rparr>;
                          l2 = (if currentMFE l1 = Some name then l1\<lparr>currentMFE := None\<rparr> else l1)
                      in (Inr True, l2,
                          emit (ConsoleLog (''MFE '' @ quoted name @ '' unloaded successfully'')) w3)))))"

subsection \<open>mfe-loader.js: containers and the error display\<close>

text \<open>\<^verbatim>\<open>containerSelector.replace('#', '')\<close>: the first \<^verbatim>\<open>#\<close> is removed.\<close>

fun replace_hash :: "string \<Rightarrow> string" where
  "replace_hash [] = []"
| "replace_hash (c # cs) = (if c = CHR ''#'' then cs else c # replace_hash cs)"

text \<open>\<^verbatim>\<open>document.createElement('div')\<close>, its \<^verbatim>\<open>id\<close> set, appended to the body.\<close>

definition create_container :: "string \<Rightarrow> dom \<Rightarrow> elem \<times> dom" where
  "create_container ident d =
     (next_elem d,
      d\<lparr>nodes := (nodes d)(next_elem d := \<lparr>node_id = ident, parentNode = True, innerHTML = []\<rparr>),
        next_elem := Suc (next_elem d)\<rparr>)"

definition getOrCreateContainer ::
  "'x env \<Rightarrow> container_arg \<Rightarrow> 'x world \<Rightarrow> (thrown + elem option) \<times> 'x world"
where
  "getOrCreateContainer env containerSelector w =
     (case containerSelector of
        HTMLElement e \<Rightarrow> (Inr (Some e), w)
      | Selector sel \<Rightarrow>
          (case document_querySelector env sel (document w) of
             Inl err \<Rightarrow> (Inl err, w)
           | Inr (Some container) \<Rightarrow> (Inr (Some container), w)
           | Inr None \<Rightarrow>
               (case create_container (replace_hash sel) (document w) of
                  (container, d) \<Rightarrow> (Inr (Some container), w\<lparr>document := d\<rparr>)))
      | FalsyArg t \<Rightarrow> (Inr None, w)
      | NonNode t \<Rightarrow> (Inr None, w))"

text \<open>The markup that the template of lines 330 to 336 parses to.\<close>

definition static_error_message :: "string \<Rightarrow> html list" where
  "static_error_message mfeName =
     [Element ''div'' ''mfe-error'' []
        [Element ''h2'' [] [] [TextNode ''Failed to Load Module''],
         Element ''p'' [] []
           [TextNode ''Unable to load the microfrontend: '',
            Element ''strong'' [] [] (textContent mfeName)],
         Element ''p'' [] [] [TextNode ''Please refresh the page or contact support.'']]]"

text \<open>Lines 300 to 325: the container is emptied and the fallback of the error boundary
  appended, with a retry and a go-home callback.\<close>

definition show_fallback :: "elem \<Rightarrow> string \<Rightarrow> thrown \<Rightarrow> 'x world \<Rightarrow> 'x world" where
  "show_fallback container mfeName error w =
     w\<lparr>document := appendChild container (createMFEFallback mfeName error True True)
                    (set_innerHTML container [] (document w))\<rparr>"

text \<open>The \<^verbatim>\<open>try\<close> block of \<^verbatim>\<open>_displayError\<close>. On an object that is not a node the assignment
  to \<^verbatim>\<open>innerHTML\<close> only sets a property, and \<^verbatim>\<open>appendChild\<close> is not a function.\<close>

definition displayError_try ::
  "'x env \<Rightarrow> container_arg \<Rightarrow> string \<Rightarrow> thrown \<Rightarrow> 'x world \<Rightarrow> (thrown + unit) \<times> 'x world"
where
  "displayError_try env containerSelector mfeName error w =
     (case containerSelector of
        Selector sel \<Rightarrow>
          (case document_querySelector env sel (document w) of
             Inl err \<Rightarrow> (Inl err, w)
           | Inr None \<Rightarrow> (Inr (), w)
           | Inr (Some container) \<Rightarrow> (Inr (), show_fallback container mfeName error w))
      | HTMLElement e \<Rightarrow> (Inr (), show_fallback e mfeName error w)
      | FalsyArg t \<Rightarrow> (Inr (), w)
      | NonNode t \<Rightarrow> (Inl (new_TypeError ''container.appendChild is not a function''), w))"

text \<open>
  What the identifier \<^verbatim>\<open>container\<close> denotes inside the \<^verbatim>\<open>catch\<close> block of \<^verbatim>\<open>_displayError\<close>.
  The \<^verbatim>\<open>const container\<close> of line 296 is scoped to the \<^verbatim>\<open>try\<close> block, the method and the
  module declare no other \<^verbatim>\<open>container\<close>, and the page has no global of that name: there is
  no binding.
\<close>

definition container_in_catch :: "elem option option" where
  "container_in_catch = None"

definition displayError ::
  "'x env \<Rightarrow> container_arg \<Rightarrow> string \<Rightarrow> thrown \<Rightarrow> 'x world \<Rightarrow> (thrown + unit) \<times> 'x world"
where
  "displayError env containerSelector mfeName error w =
     (case displayError_try env containerSelector mfeName error w of
        (Inr u, w1) \<Rightarrow> (Inr (), w1)
      | (Inl derr, w1) \<Rightarrow>
          (let w2 = emit (ConsoleError ''Failed to display error message:'' derr) w1
           in case container_in_catch of
                None \<Rightarrow> (Inl (new_ReferenceError ''container is not defined''), w2)
              | Some None \<Rightarrow> (Inr (), w2)
              | Some (Some container) \<Rightarrow>
                  (Inr (), w2\<lparr>document :=
                     set_innerHTML container (static_error_message mfeName) (document w2)\<rparr>)))"

subsection \<open>mfe-loader.js: importing and bootstrapping a remote\<close>

definition initFederation ::
  "'x env \<Rightarrow> 'x MFELoader \<times> 'x world \<Rightarrow> (thrown + 'x loadfn option) \<times> 'x MFELoader \<times> 'x world"
where
  "initFederation env s =
     (case s of (l, w) \<Rightarrow>
        if federationInitialized l then (Inr (loadRemoteModule l), l, w)
        else
          (let w1 = emit (ConsoleLog ''Initializing vanilla-native-federation...'') w
           in case call_ext CallInitFederation
                     (lib_initFederation env [(''mfe1'', ''http://localhost:4201/remoteEntry.json'')]) w1 of
                (Inl error, w2) \<Rightarrow>
                  (Inl error, l,
                   emit (ConsoleError ''Failed to initialize vanilla-native-federation:'' error) w2)
              | (Inr f, w2) \<Rightarrow>
                  (Inr (Some f),
                   l\<lparr>loadRemoteModule := Some f, federationInitialized := True\<rparr>,
                   emit (ConsoleLog ''vanilla-native-federation initialized successfully'') w2)))"

text \<open>The \<^verbatim>\<open>try\<close> block of \<^verbatim>\<open>_importRemoteModule\<close>; calling an undefined
  \<^verbatim>\<open>loadRemoteModule\<close> is a \<^verbatim>\<open>TypeError\<close>.\<close>

definition importRemoteModule_try ::
  "'x env \<Rightarrow> string \<Rightarrow> 'x MFELoader \<times> 'x world \<Rightarrow>
     (thrown + 'x remoteModule option) \<times> 'x MFELoader \<times> 'x world"
where
  "importRemoteModule_try env name s =
     (case s of (l, w) \<Rightarrow>
        (let w0 = emit (ConsoleLog (''Loading remote module '' @ quoted name @
                          '' via vanilla-native-federation...'')) w
         in case initFederation env (l, w0) of
              (Inl error, l1, w1) \<Rightarrow> (Inl error, l1, w1)
            | (Inr lf, l1, w1) \<Rightarrow>
                (let w2 = emit (ConsoleLog (''Loading module: '' @ name @ ''/./bootstrap'')) w1
                 in case lf of
                      None \<Rightarrow> (Inl (new_TypeError ''loadRemoteModule is not a function''), l1, w2)
                    | Some f \<Rightarrow>
                        (case call_ext (CallLoadRemoteModule name ''./bootstrap'')
                                (f name ''./bootstrap'') w2 of
                           (Inl error, w3) \<Rightarrow> (Inl error, l1, w3)
                         | (Inr module, w3) \<Rightarrow>
                             (Inr module, l1,
                              emit (ConsoleLog (''Successfully loaded module from '' @ name)) w3)))))"

definition importRemoteModule ::
  "'x env \<Rightarrow> string \<Rightarrow> 'x MFELoader \<times> 'x world \<Rightarrow>
     (thrown + 'x remoteModule option) \<times> 'x MFELoader \<times> 'x world"
where
  "importRemoteModule env name s =
     (case importRemoteModule_try env name s of
        (Inr module, s1) \<Rightarrow> (Inr module, s1)
      | (Inl error, l1, w1) \<Rightarrow>
          (let w2 = emit (ConsoleError (''Failed to load remote module '' @ quoted name @ '':'') error) w1
           in case message_text error of
                Inl te \<Rightarrow> (Inl te, l1, w2)
              | Inr m \<Rightarrow>
                  (Inl (new_Error (''Failed to import remote module '' @ quoted name @ '': '' @ m)),
                   l1, w2)))"

definition bootstrapMFE ::
  "'x remoteModule option \<Rightarrow> elem \<Rightarrow> options \<Rightarrow> 'x world \<Rightarrow> (thrown + 'x mfeInstance) \<times> 'x world"
where
  "bootstrapMFE remoteModule container opts w =
     (case remoteModule of
        None \<Rightarrow> (Inl (new_TypeError ''Cannot read properties of undefined (reading 'mount')''), w)
      | Some m \<Rightarrow>
          (case js_or (js_or (mod_mount m) (mod_bootstrap m)) (mod_default_mount m) of
             Function mountFn \<Rightarrow>
               (let w1 = emit (ConsoleLog ''Calling MFE mount function...'') w
                in case call_ext (CallMount container) (mountFn container opts) w1 of
                     (Inl error, w2) \<Rightarrow> (Inl error, w2)
                   | (Inr result, w2) \<Rightarrow>
                       (let w3 = emit (ConsoleLog ''MFE mounted successfully'') w2
                        in case result of
                             Object (Function u) d \<Rightarrow> (Inr result, w3)
                           | _ \<Rightarrow>
                               (Inr (Object (Function (ClearContainer container)) Missing),
                                emit (ConsoleWarn
                                  ''MFE mount function did not return a valid unmount method'') w3)))
           | _ \<Rightarrow>
               (Inl (new_Error ''Remote module does not export a mount or bootstrap function''), w)))"

subsection \<open>mfe-loader.js: loadMFE\<close>

text \<open>Lines 42 to 45: an instance already loaded under the name is unloaded first.\<close>

definition unload_existing ::
  "string \<Rightarrow> 'x MFELoader \<times> 'x world \<Rightarrow> (thrown + unit) \<times> 'x MFELoader \<times> 'x world"
where
  "unload_existing name s =
     (case s of (l, w) \<Rightarrow>
        if name \<in> dom (loadedMFEs l)
        then (case unloadMFE name
                     (l, emit (ConsoleWarn (''MFE '' @ quoted name @
                                 '' is already loaded. Unloading first.'')) w) of
                (Inl error, s1) \<Rightarrow> (Inl error, s1)
              | (Inr b, s1) \<Rightarrow> (Inr (), s1))
        else (Inr (), l, w))"

text \<open>Lines 47 to 70: the remote is imported and bootstrapped, and the metadata stored
  under the name. The object that \<^verbatim>\<open>loadMFE\<close> returns holds the metadata and a closure that
  calls \<^verbatim>\<open>unloadMFE(name)\<close>; the metadata stands for it.\<close>

definition mount_stage ::
  "'x env \<Rightarrow> string \<Rightarrow> elem \<Rightarrow> options \<Rightarrow> 'x MFELoader \<times> 'x world \<Rightarrow>
     (thrown + 'x mfeMetadata) \<times> 'x MFELoader \<times> 'x world"
where
  "mount_stage env name container opts s2 =
     (case importRemoteModule env name s2 of
        (Inl error, s3) \<Rightarrow> (Inl error, s3)
      | (Inr remoteModule, l3, w3) \<Rightarrow>
          (case bootstrapMFE remoteModule container opts w3 of
             (Inl error, w4) \<Rightarrow> (Inl error, l3, w4)
           | (Inr inst, w4) \<Rightarrow>
               (let mfeMetadata =
                      \<lparr>md_name = name, md_container = container, md_instance = inst,
                       md_loadedAt = clock w4, md_options = opts\<rparr>
                in (Inr mfeMetadata,
                    l3\<lparr>loadedMFEs := (loadedMFEs l3)(name \<mapsto> mfeMetadata),
                       currentMFE := Some name\<rparr>,
                    emit (ConsoleLog (''MFE '' @ quoted name @ '' loaded successfully'')) w4))))"

text \<open>The \<^verbatim>\<open>try\<close> block of \<^verbatim>\<open>loadMFE\<close>.\<close>

definition loadMFE_try ::
  "'x env \<Rightarrow> string \<Rightarrow> container_arg \<Rightarrow> options \<Rightarrow> 'x MFELoader \<times> 'x world \<Rightarrow>
     (thrown + 'x mfeMetadata) \<times> 'x MFELoader \<times> 'x world"
where
  "loadMFE_try env name containerSelector opts s =
     (case s of (l, w) \<Rightarrow>
        (case getOrCreateContainer env containerSelector
                (emit (ConsoleLog (''Loading MFE: '' @ name)) w) of
           (Inl error, w1) \<Rightarrow> (Inl error, l, w1)
         | (Inr None, w1) \<Rightarrow>
             (Inl (new_Error (''Container not found: '' @ arg_text containerSelector)), l, w1)
         | (Inr (Some container), w1) \<Rightarrow>
             (case unload_existing name (l, w1) of
                (Inl error, s2) \<Rightarrow> (Inl error, s2)
              | (Inr u, s2) \<Rightarrow> mount_stage env name container opts s2)))"

definition loadMFE ::
  "'x env \<Rightarrow> string \<Rightarrow> container_arg \<Rightarrow> options \<Rightarrow> 'x MFELoader \<times> 'x world \<Rightarrow>
     (thrown + 'x mfeMetadata) \<times> 'x MFELoader \<times> 'x world"
where
  "loadMFE env name containerSelector opts s =
     (case loadMFE_try env name containerSelector opts s of
        (Inr res, s1) \<Rightarrow> (Inr res, s1)
      | (Inl error, l1, w1) \<Rightarrow>
          (let w2 = emit (ConsoleError (''Failed to load MFE '' @ quoted name @ '':'') error) w1
           in case displayError env containerSelector name error w2 of
                (Inl thrown', w3) \<Rightarrow> (Inl thrown', l1, w3)
              | (Inr u, w3) \<Rightarrow>
                  (case message_text error of
                     Inl te \<Rightarrow> (Inl te, l1, w3)
                   | Inr m \<Rightarrow>
                       (Inl (new_Error (''MFE load failed: '' @ name @ '' - '' @ m)), l1, w3))))"

subsection \<open>Sequences of calls\<close>

text \<open>The public calls that change the loader, and a run of such calls, each awaited before
  the next.\<close>

datatype loader_call = LoadMFE string container_arg options | UnloadMFE string

fun call_loader ::
  "'x env \<Rightarrow> loader_call \<Rightarrow> 'x MFELoader \<times> 'x world \<Rightarrow> 'x MFELoader \<times> 'x world"
where
  "call_loader env (LoadMFE name c opts) s = snd (loadMFE env name c opts s)"
| "call_loader env (UnloadMFE name) s = snd (unloadMFE name s)"

fun run_calls ::
  "'x env \<Rightarrow> loader_call list \<Rightarrow> 'x MFELoader \<times> 'x world \<Rightarrow> 'x MFELoader \<times> 'x world"
where
  "run_calls env [] s = s"
| "run_calls env (c # cs) s = run_calls env cs (call_loader env c s)"

subsection \<open>Reading the trace\<close>

text \<open>What the \<^verbatim>\<open>catch\<close> block of \<^verbatim>\<open>loadMFE\<close> throws for a caught \<open>cause\<close>, once the error
  display has returned: line 79.\<close>

definition rejection :: "string \<Rightarrow> thrown \<Rightarrow> thrown" where
  "rejection name cause =
     (case message_text cause of
        Inl te \<Rightarrow> te
      | Inr m \<Rightarrow> new_Error (''MFE load failed: '' @ name @ '' - '' @ m))"

text \<open>The callbacks that were called, in order.\<close>

fun calls_of :: "event list \<Rightarrow> call list" where
  "calls_of [] = []"
| "calls_of (Call c # es) = c # calls_of es"
| "calls_of (e # es) = calls_of es"

text \<open>The element into which \<^verbatim>\<open>_displayError\<close> renders: the argument itself when it is an
  element, for a selector the element that it matches in the given document.\<close>

definition display_target :: "'x env \<Rightarrow> container_arg \<Rightarrow> dom \<Rightarrow> elem option" where
  "display_target env containerSelector d =
     (case containerSelector of
        HTMLElement e \<Rightarrow> Some e
      | Selector sel \<Rightarrow>
          (case document_querySelector env sel d of Inr (Some e) \<Rightarrow> Some e | _ \<Rightarrow> None)
      | _ \<Rightarrow> None)"

text \<open>Whether \<^verbatim>\<open>_getOrCreateContainer\<close> yields an element: for an element, and for a valid
  selector (matched or not, since a missing container is created).\<close>

definition resolvable :: "'x env \<Rightarrow> container_arg \<Rightarrow> bool" where
  "resolvable env containerSelector =
     (case containerSelector of
        HTMLElement e \<Rightarrow> True
      | Selector sel \<Rightarrow> selector_valid env sel
      | _ \<Rightarrow> False)"

text \<open>What calling a teardown function does to the page and to the outside state.\<close>

definition teardown_result :: "'x teardown \<Rightarrow> ('x, unit) ext_fn" where
  "teardown_result t =
     (case t of
        ClearContainer e \<Rightarrow> (\<lambda>(d, x). (Inr (), set_innerHTML e [] d, x))
      | RemoteFn f \<Rightarrow> f)"

text \<open>Whether a mount result has a callable \<^verbatim>\<open>unmount\<close>.\<close>

definition has_unmount :: "'x mfeInstance \<Rightarrow> bool" where
  "has_unmount inst = (case inst of Object (Function u) d \<Rightarrow> True | _ \<Rightarrow> False)"

subsection \<open>A page, a federation library and remotes to run the shell on\<close>

text \<open>The page has one attached element, \<^verbatim>\<open><div id="mfe-container">\<close>, at reference 0. The
  state of the remotes is the number of mounts so far.\<close>

definition blank_node :: node where
  "blank_node = \<lparr>node_id = [], parentNode = False, innerHTML = []\<rparr>"

definition demo_dom :: dom where
  "demo_dom =
     \<lparr>nodes = (\<lambda>e. blank_node)
        (0 := \<lparr>node_id = ''mfe-container'', parentNode = True, innerHTML = []\<rparr>),
      next_elem = Suc 0\<rparr>"

definition demo_world :: "nat world" where
  "demo_world =
     \<lparr>document = demo_dom, ext = 0, pathname = ''/'', clock = 0,
      other_origin = (\<lambda>url. True), trace = []\<rparr>"

text \<open>The first attached element, among those created so far, that satisfies \<open>P\<close>.\<close>

primrec first_below :: "(node \<Rightarrow> bool) \<Rightarrow> dom \<Rightarrow> nat \<Rightarrow> elem option" where
  "first_below P d 0 = None"
| "first_below P d (Suc n) =
     (case first_below P d n of
        Some e \<Rightarrow> Some e
      | None \<Rightarrow> (if parentNode (nodes d n) \<and> P (nodes d n) then Some n else None))"

text \<open>
  Selectors on this page, where every element is a \<^verbatim>\<open>div\<close>: the empty selector is not
  valid; \<^verbatim>\<open>#x\<close> matches the first attached element whose id is \<^verbatim>\<open>x\<close>; \<^verbatim>\<open>div\<close> matches the
  first attached element; any other selector, such as the type selector \<^verbatim>\<open>mfe-container\<close>,
  matches nothing.
\<close>

definition demo_first_match :: "string \<Rightarrow> dom \<Rightarrow> elem option" where
  "demo_first_match sel d =
     (case sel of
        [] \<Rightarrow> None
      | c # ident \<Rightarrow>
          if c = CHR ''#'' then first_below (\<lambda>n. node_id n = ident) d (next_elem d)
          else if sel = ''div'' then first_below (\<lambda>n. True) d (next_elem d)
          else None)"

definition app_root :: html where
  "app_root = Element ''app-root'' [] [] [TextNode ''MFE1 Dashboard'']"

text \<open>The teardown of a well-behaved remote empties its container and adds 10 to the
  state of the remotes.\<close>

definition demo_unmount :: "elem \<Rightarrow> (nat, unit) ext_fn" where
  "demo_unmount c = (\<lambda>(d, x). (Inr (), set_innerHTML c [] d, x + 10))"

definition failing_unmount :: "(nat, unit) ext_fn" where
  "failing_unmount = (\<lambda>(d, x). (Inl (new_Error ''destroy failed''), d, x))"

text \<open>Mount functions: one that returns an \<^verbatim>\<open>unmount\<close>, one whose \<^verbatim>\<open>unmount\<close> throws, one
  that resolves to \<^verbatim>\<open>{}\<close>, one that rejects with an \<^verbatim>\<open>Error\<close>, and one that rejects with
  \<^verbatim>\<open>null\<close>.\<close>

definition demo_mount :: "nat mountfn" where
  "demo_mount c opts =
     (\<lambda>(d, x). (Inr (Object (Function (RemoteFn (demo_unmount c))) Missing),
                 appendChild c app_root d, Suc x))"

definition stubborn_mount :: "nat mountfn" where
  "stubborn_mount c opts =
     (\<lambda>(d, x). (Inr (Object (Function (RemoteFn failing_unmount)) Missing),
                 appendChild c app_root d, Suc x))"

definition bare_mount :: "nat mountfn" where
  "bare_mount c opts = (\<lambda>(d, x). (Inr (Object Missing Missing), appendChild c app_root d, Suc x))"

definition broken_mount :: "nat mountfn" where
  "broken_mount c opts = (\<lambda>(d, x). (Inl (new_Error ''bootstrap failed''), d, x))"

definition null_mount :: "nat mountfn" where
  "null_mount c opts = (\<lambda>(d, x). (Inl Nullish, d, x))"

definition module_of :: "nat mountfn \<Rightarrow> nat remoteModule" where
  "module_of f = \<lparr>mod_mount = Function f, mod_bootstrap = Missing, mod_default_mount = Missing\<rparr>"

text \<open>The remotes by name; \<^verbatim>\<open>flaky\<close> can be imported only as long as nothing has been
  mounted.\<close>

definition demo_loadRemoteModule :: "nat loadfn" where
  "demo_loadRemoteModule name exposed =
     (\<lambda>(d, x).
        if name = ''mfe1'' then (Inr (Some (module_of demo_mount)), d, x)
        else if name = ''stubborn'' then (Inr (Some (module_of stubborn_mount)), d, x)
        else if name = ''bare'' then (Inr (Some (module_of bare_mount)), d, x)
        else if name = ''broken'' then (Inr (Some (module_of broken_mount)), d, x)
        else if name = ''nullish'' then (Inr (Some (module_of null_mount)), d, x)
        else if name = ''flaky'' \<and> x = 0 then (Inr (Some (module_of demo_mount)), d, x)
        else (Inl (new_Error (''Remote not found: '' @ name)), d, x))"

definition demo_env :: "nat env" where
  "demo_env =
     \<lparr>selector_valid = (\<lambda>sel. sel \<noteq> []),
      first_match = demo_first_match,
      lib_initFederation = (\<lambda>manifest (d, x). (Inr demo_loadRemoteModule, d, x))\<rparr>"

definition demo_loader :: "nat MFELoader" where
  "demo_loader = MFELoader_new"

text \<open>Route handlers: one that renders the home page and one that throws.\<close>

definition home_handler :: "nat handler" where
  "home_handler path =
     (\<lambda>(d, x). (Inr (), set_innerHTML 0 [Element ''div'' ''home-page'' [] []] d, x))"

definition throwing_handler :: "nat handler" where
  "throwing_handler path = (\<lambda>(d, x). (Inl (new_Error ''render failed''), d, x))"

definition demo_router :: "nat Router" where
  "demo_router =
     \<lparr>routes = [''/'' \<mapsto> home_handler, ''/home'' \<mapsto> home_handler, ''/x'' \<mapsto> throwing_handler],
      currentRoute = None, isInitialized = False\<rparr>"

definition failing_home_router :: "nat Router" where
  "failing_home_router =
     \<lparr>routes = [''/'' \<mapsto> throwing_handler, ''/home'' \<mapsto> throwing_handler],
      currentRoute = None, isInitialized = False\<rparr>"

text \<open>The state after \<^verbatim>\<open>loadMFE('stubborn', container)\<close> on the fresh loader, the container
  being element 0.\<close>

definition stubborn_loaded :: "nat MFELoader \<times> nat world" where
  "stubborn_loaded =
     snd (loadMFE demo_env ''stubborn'' (HTMLElement 0) [] (demo_loader, demo_world))"

text \<open>The states after loading \<^verbatim>\<open>mfe1\<close>, and after loading \<^verbatim>\<open>bare\<close>, into element 0 on the
  fresh loader, with the metadata that each load stores.\<close>

definition mfe1_metadata :: "nat mfeMetadata" where
  "mfe1_metadata =
     \<lparr>md_name = ''mfe1'', md_container = 0,
      md_instance = Object (Function (RemoteFn (demo_unmount 0))) Missing,
      md_loadedAt = 0, md_options = []\<rparr>"

definition mfe1_loaded :: "nat MFELoader \<times> nat world" where
  "mfe1_loaded = snd (loadMFE demo_env ''mfe1'' (HTMLElement 0) [] (demo_loader, demo_world))"

definition bare_metadata :: "nat mfeMetadata" where
  "bare_metadata =
     \<lparr>md_name = ''bare'', md_container = 0,
      md_instance = Object (Function (ClearContainer 0)) Missing,
      md_loadedAt = 0, md_options = []\<rparr>"

definition bare_loaded :: "nat MFELoader \<times> nat world" where
  "bare_loaded = snd (loadMFE demo_env ''bare'' (HTMLElement 0) [] (demo_loader, demo_world))"

text \<open>The state after loading \<^verbatim>\<open>flaky\<close> into element 0 on the fresh loader.\<close>

definition flaky_loaded :: "nat MFELoader \<times> nat world" where
  "flaky_loaded = snd (loadMFE demo_env ''flaky'' (HTMLElement 0) [] (demo_loader, demo_world))"

section \<open>Properties of the router\<close>

subsection \<open>Auxiliary facts\<close>

lemma calls_of_append [simp]: "calls_of (xs @ ys) = calls_of xs @ calls_of ys"
  by (induction xs rule: calls_of.induct) auto

lemma call_ext_fst [simp]: "fst (call_ext c f w) = fst (f (document w, ext w))"
  by (simp add: call_ext_def split: prod.splits)

lemma call_ext_document [simp]:
  "document (snd (call_ext c f w)) = fst (snd (f (document w, ext w)))"
  and call_ext_ext [simp]: "ext (snd (call_ext c f w)) = snd (snd (f (document w, ext w)))"
  by (simp_all add: call_ext_def split: prod.splits)

lemma call_ext_calls [simp]: "calls_of (trace (snd (call_ext c f w))) = calls_of (trace w) @ [c]"
  by (simp add: call_ext_def split: prod.splits)

text \<open>Lines 33 to 44 change neither the page nor the outside state, and call nothing. They
  complete when no history entry is pushed, or the routed path is on the page's origin.\<close>

lemma enter_route_document [simp]:
  "document (snd (snd (enter_route path skip (r, w)))) = document w"
  and enter_route_ext [simp]: "ext (snd (snd (enter_route path skip (r, w)))) = ext w"
  and enter_route_calls [simp]:
    "calls_of (trace (snd (snd (enter_route path skip (r, w))))) = calls_of (trace w)"
  by (simp_all add: enter_route_def Let_def pushState_def emit_def split: sum.splits)

lemma enter_route_completes:
  assumes "skip \<or> path_absolute (route_path r path) \<or> \<not> other_origin w (route_path r path)"
  shows "fst (enter_route path skip (r, w)) = Inr ()"
    and "fst (snd (enter_route path skip (r, w))) = r\<lparr>currentRoute := Some (route_path r path)\<rparr>"
  using assms by (auto simp add: enter_route_def Let_def pushState_def emit_def)

lemma home_paths_absolute: "path_absolute ''/''" "path_absolute ''/home''"
  by (simp_all add: path_absolute_def)

lemma route_path_registered: "routes r path = Some h \<Longrightarrow> route_path r path = path"
  by (auto simp: route_path_def)

lemma run_handler_registered:
  "routes r p = Some h \<Longrightarrow>
     run_handler (r\<lparr>currentRoute := c\<rparr>) p w = call_ext (CallHandler p) (h p) w"
  by (simp add: run_handler_def)

lemma handled_registered:
  assumes "routes r path = Some h"
  shows "fst (handled r path skip w path) = fst (h path (document w, ext w))"
    and "calls_of (trace (snd (handled r path skip w path)))
           = calls_of (trace w) @ [CallHandler path]"
  using assms by (simp_all add: handled_def run_handler_registered)

text \<open>Every path through \<^verbatim>\<open>navigate\<close> ends in a fulfilled promise.\<close>

lemma navigate_resolves: "fst (navigate path skip s) = Inr ()"
  by (subst navigate.simps) (simp add: Let_def split: sum.splits)

text \<open>When \<^verbatim>\<open>pushState\<close> throws, no handler is called and the current route stays.\<close>

lemma navigate_push_refused:
  assumes "\<not> skip" and "\<not> path_absolute (route_path r path)"
    and "other_origin w (route_path r path)"
  shows "fst (snd (navigate path skip (r, w))) = r"
    and "calls_of (trace (snd (snd (navigate path skip (r, w))))) = calls_of (trace w)"
  using assms
  by (subst navigate.simps, simp add: Let_def enter_route_def pushState_def emit_def)+

text \<open>One unfolding of \<^verbatim>\<open>navigate\<close>, for a routed path that is a home path and for one that
  is not.\<close>

lemma navigate_home:
  assumes p: "route_path r path = p" and home: "p = ''/'' \<or> p = ''/home''"
  shows "navigate path skip (r, w) =
     (case fst (handled r path skip w p) of
        Inr u \<Rightarrow> (Inr (), r\<lparr>currentRoute := Some p\<rparr>, snd (handled r path skip w p))
      | Inl error \<Rightarrow> (Inr (), r\<lparr>currentRoute := Some p\<rparr>,
           emit (ConsoleError ''Critical navigation error:'' error)
             (emit (ConsoleError (''Error executing handler for route '' @ quoted p @ '':'') error)
                (snd (handled r path skip w p)))))"
proof -
  from p home have "path_absolute (route_path r path)"
    using home_paths_absolute by auto
  then have "fst (enter_route path skip (r, w)) = Inr ()"
    and "fst (snd (enter_route path skip (r, w))) = r\<lparr>currentRoute := Some (route_path r path)\<rparr>"
    by (simp_all add: enter_route_completes)
  with p home show ?thesis
    by (subst navigate.simps) (auto simp add: Let_def handled_def split: sum.splits)
qed

lemma navigate_recover:
  assumes p: "route_path r path = p" and away: "p \<noteq> ''/''" "p \<noteq> ''/home''"
    and push: "skip \<or> path_absolute p \<or> \<not> other_origin w p"
  shows "navigate path skip (r, w) =
     (case fst (handled r path skip w p) of
        Inr u \<Rightarrow> (Inr (), r\<lparr>currentRoute := Some p\<rparr>, snd (handled r path skip w p))
      | Inl error \<Rightarrow> (Inr (), snd (navigate ''/'' False (r\<lparr>currentRoute := Some p\<rparr>,
           emit (ConsoleLog ''Attempting to recover by navigating to home'')
             (emit (ConsoleError (''Error executing handler for route '' @ quoted p @ '':'') error)
                (snd (handled r path skip w p)))))))"
proof -
  from p push have "fst (enter_route path skip (r, w)) = Inr ()"
    and "fst (snd (enter_route path skip (r, w))) = r\<lparr>currentRoute := Some (route_path r path)\<rparr>"
    by (simp_all add: enter_route_completes)
  with p away show ?thesis
    by (subst navigate.simps) (auto simp add: Let_def handled_def split: sum.splits)
qed

lemma navigate_home_failure:
  assumes reg: "routes r path = Some h"
    and throws: "fst (h path (document w, ext w)) = Inl e"
    and home: "path = ''/'' \<or> path = ''/home''"
  shows "snd (navigate path skip (r, w))
            = (r\<lparr>currentRoute := Some path\<rparr>,
               emit (ConsoleError ''Critical navigation error:'' e)
                 (emit (ConsoleError (''Error executing handler for route '' @ quoted path @ '':'') e)
                    (snd (handled r path skip w path))))"
    and "calls_of (trace (snd (snd (navigate path skip (r, w)))))
           = calls_of (trace w) @ [CallHandler path]"
proof -
  have failed: "fst (handled r path skip w path) = Inl e"
    using handled_registered(1) [OF reg] throws by simp
  show eq: "snd (navigate path skip (r, w))
            = (r\<lparr>currentRoute := Some path\<rparr>,
               emit (ConsoleError ''Critical navigation error:'' e)
                 (emit (ConsoleError (''Error executing handler for route '' @ quoted path @ '':'') e)
                    (snd (handled r path skip w path))))"
    using navigate_home [OF route_path_registered [OF reg] home, of skip w] failed by simp
  show "calls_of (trace (snd (snd (navigate path skip (r, w)))))
          = calls_of (trace w) @ [CallHandler path]"
    unfolding eq using handled_registered(2) [OF reg] by (simp add: emit_def)
qed

lemma navigate_recover_failure:
  assumes reg: "routes r path = Some h"
    and throws: "fst (h path (document w, ext w)) = Inl e"
    and away: "path \<noteq> ''/''" "path \<noteq> ''/home''"
    and push: "skip \<or> path_absolute path \<or> \<not> other_origin w path"
  shows "snd (navigate path skip (r, w))
            = snd (navigate ''/'' False
                (r\<lparr>currentRoute := Some path\<rparr>,
                 emit (ConsoleLog ''Attempting to recover by navigating to home'')
                   (emit (ConsoleError (''Error executing handler for route '' @ quoted path @ '':'') e)
                      (snd (handled r path skip w path)))))"
proof -
  have failed: "fst (handled r path skip w path) = Inl e"
    using handled_registered(1) [OF reg] throws by simp
  show ?thesis
    using navigate_recover [OF route_path_registered [OF reg] away push] failed by simp
qed

lemma init_sets_flag: "isInitialized (fst (init s))"
  by (cases s) (simp add: init_def Let_def)

subsection \<open>Claims about the router\<close>

text \<open>
  C10. For every path, registered or not, every value of \<^verbatim>\<open>skipPushState\<close>, every router
  and every behaviour of the handlers (those that throw included), the promise that
  \<^verbatim>\<open>navigate\<close> returns is fulfilled: it never rejects.
\<close>

theorem navigate_never_rejects: "fst (navigate path skipPushState s) = Inr ()"
proof (cases "fst (enter_route path skipPushState s)")
  case (Inl error)
  then show ?thesis
    by (subst navigate.simps) (simp add: Let_def)
next
  case entered: (Inr u)
  show ?thesis
  proof (cases "fst (run_handler (fst (snd (enter_route path skipPushState s)))
                  (route_path (fst s) path) (snd (snd (enter_route path skipPushState s))))")
    case (Inl error)
    with entered show ?thesis
      by (subst navigate.simps) (simp add: Let_def)
  next
    case (Inr v)
    with entered show ?thesis
      by (subst navigate.simps) (simp add: Let_def)
  qed
qed

theorem navigate_never_rejects_witness:
  "fst (navigate ''/x'' False (demo_router, demo_world)) = Inr ()
   \<and> fst (navigate ''/'' True (failing_home_router, demo_world)) = Inr ()"
  using navigate_never_rejects [of "''/x''" False "(demo_router, demo_world)"]
    navigate_never_rejects [of "''/''" True "(failing_home_router, demo_world)"]
  by simp

text \<open>
  C4. For every path that is not a key of the route table, \<^verbatim>\<open>navigate\<close> does not throw; it
  routes \<^verbatim>\<open>/\<close> instead, so \<^verbatim>\<open>/\<close> becomes the current route, and when \<^verbatim>\<open>/\<close> is registered the
  one handler that runs is the handler of \<^verbatim>\<open>/\<close>, called with \<^verbatim>\<open>/\<close>: the page and the outside
  state afterwards are what that handler leaves. The lookup is the map lookup on the
  whole string, so a path that merely extends a registered one is not registered.
\<close>

theorem navigate_unregistered_goes_home:
  assumes unreg: "path \<notin> dom (routes r)"
  shows "fst (navigate path skipPushState (r, w)) = Inr ()
     \<and> currentRoute (fst (snd (navigate path skipPushState (r, w)))) = Some ''/''
     \<and> (\<forall>h. routes r ''/'' = Some h \<longrightarrow>
           calls_of (trace (snd (snd (navigate path skipPushState (r, w)))))
             = calls_of (trace w) @ [CallHandler ''/'']
         \<and> (document (snd (snd (navigate path skipPushState (r, w)))),
              ext (snd (snd (navigate path skipPushState (r, w)))))
             = snd (h ''/'' (document w, ext w)))"
proof -
  from unreg have p: "route_path r path = ''/''"
    by (simp add: route_path_def)
  note nav = navigate_home [OF p, of skipPushState w, simplified]
  have cur: "currentRoute (fst (snd (navigate path skipPushState (r, w)))) = Some ''/''"
    unfolding nav by (simp split: sum.splits)
  have reg: "calls_of (trace (snd (snd (navigate path skipPushState (r, w)))))
             = calls_of (trace w) @ [CallHandler ''/'']
         \<and> (document (snd (snd (navigate path skipPushState (r, w)))),
              ext (snd (snd (navigate path skipPushState (r, w)))))
             = snd (h ''/'' (document w, ext w))" if h: "routes r ''/'' = Some h" for h
    unfolding nav using h
    by (simp add: handled_def run_handler_registered emit_def prod_eq_iff split: sum.splits)
  show ?thesis
    using cur reg navigate_resolves by blast
qed

theorem navigate_unregistered_goes_home_witness:
  "''/home/settings'' \<notin> dom (routes demo_router)
   \<and> fst (navigate ''/home/settings'' False (demo_router, demo_world)) = Inr ()
   \<and> currentRoute (fst (snd (navigate ''/home/settings'' False (demo_router, demo_world)))) = Some ''/''
   \<and> calls_of (trace (snd (snd (navigate ''/home/settings'' False (demo_router, demo_world)))))
       = [CallHandler ''/'']
   \<and> innerHTML (nodes (document (snd (snd (navigate ''/home/settings'' False (demo_router, demo_world))))) 0)
       = [Element ''div'' ''home-page'' [] []]"
proof -
  have unreg: "''/home/settings'' \<notin> dom (routes demo_router)"
    by (simp add: demo_router_def)
  have home: "routes demo_router ''/'' = Some home_handler"
    by (simp add: demo_router_def)
  from navigate_unregistered_goes_home [OF unreg, of False demo_world] home
  show ?thesis
    using unreg
    by (simp add: demo_world_def home_handler_def set_innerHTML_def demo_dom_def prod_eq_iff)
qed

text \<open>
  C8. When the router is already initialized, \<^verbatim>\<open>init()\<close> returns without an error and
  changes nothing but the console, which gets one warning: the router is the same, no
  listener is registered, no navigation is made.
\<close>

theorem init_again_is_noop:
  assumes "isInitialized r"
  shows "init (r, w) = (r, w\<lparr>trace := trace w @ [ConsoleWarn ''Router already initialized'']\<rparr>)"
proof -
  have "init (r, w) = (r, emit (ConsoleWarn ''Router already initialized'') w)"
    using assms by (simp add: init_def)
  then show ?thesis
    by (simp add: emit_def)
qed

theorem init_again_is_noop_witness:
  "isInitialized (fst (init (demo_router, demo_world)))
   \<and> init (init (demo_router, demo_world))
       = (fst (init (demo_router, demo_world)),
          (snd (init (demo_router, demo_world)))
            \<lparr>trace := trace (snd (init (demo_router, demo_world)))
                       @ [ConsoleWarn ''Router already initialized'']\<rparr>)"
proof -
  have flag: "isInitialized (fst (init (demo_router, demo_world)))"
    by (rule init_sets_flag)
  from init_again_is_noop [OF flag, of "snd (init (demo_router, demo_world))"] flag
  show ?thesis by simp
qed

text \<open>
  C3 fails on the code. The handler of the default route \<^verbatim>\<open>/\<close> throws; \<^verbatim>\<open>navigate('/')\<close> rethrows
  the error at line 61 for the process-wide handler, as its comments say, but the \<^verbatim>\<open>throw\<close>
  is inside the \<^verbatim>\<open>try\<close> of lines 31 to 68, whose \<^verbatim>\<open>catch\<close> only logs it: the promise is
  fulfilled and the error reaches nobody.
\<close>

theorem default_failure_is_swallowed:
  "routes failing_home_router ''/'' = Some throwing_handler
   \<and> fst (throwing_handler ''/'' (document demo_world, ext demo_world)) = Inl (new_Error ''render failed'')
   \<and> navigate ''/'' False (failing_home_router, demo_world)
       = (Inr (), failing_home_router\<lparr>currentRoute := Some ''/''\<rparr>,
          demo_world\<lparr>pathname := ''/'',
            trace := [PushState ''/'', Call (CallHandler ''/''),
              ConsoleError (''Error executing handler for route '' @ quoted ''/'' @ '':'')
                (new_Error ''render failed''),
              ConsoleError ''Critical navigation error:'' (new_Error ''render failed'')]\<rparr>)"
proof -
  have a: "routes failing_home_router ''/'' = Some throwing_handler"
    by (simp add: failing_home_router_def)
  have c: "fst (throwing_handler ''/'' (document demo_world, ext demo_world))
             = Inl (new_Error ''render failed'')"
    by (simp add: throwing_handler_def)
  have p: "route_path failing_home_router ''/'' = ''/''"
    by (simp add: route_path_def)
  have h: "handled failing_home_router ''/'' False demo_world ''/''
             = (Inl (new_Error ''render failed''),
                demo_world\<lparr>pathname := ''/'', trace := [PushState ''/'', Call (CallHandler ''/'')]\<rparr>)"
    by (simp add: handled_def run_handler_def a enter_route_def route_path_def pushState_def
        home_paths_absolute call_ext_def throwing_handler_def demo_world_def failing_home_router_def
        Let_def)
  have "navigate ''/'' False (failing_home_router, demo_world)
       = (Inr (), failing_home_router\<lparr>currentRoute := Some ''/''\<rparr>,
          demo_world\<lparr>pathname := ''/'',
            trace := [PushState ''/'', Call (CallHandler ''/''),
              ConsoleError (''Error executing handler for route '' @ quoted ''/'' @ '':'')
                (new_Error ''render failed''),
              ConsoleError ''Critical navigation error:'' (new_Error ''render failed'')]\<rparr>)"
    by (simp add: navigate_home [OF p] h emit_def)
  with a c show ?thesis
    by simp
qed

section \<open>Properties of the loader\<close>

subsection \<open>Auxiliary facts\<close>

lemma emit_fields [simp]:
  "document (emit ev w) = document w" "ext (emit ev w) = ext w"
  "trace (emit ev w) = trace w @ [ev]" "clock (emit ev w) = clock w" "pathname (emit ev w) = pathname w"
  by (simp_all add: emit_def)

lemma call_ext_trace [simp]: "trace (snd (call_ext c f w)) = trace w @ [Call c]"
  by (simp add: call_ext_def split: prod.splits)

lemma unloadMFE_resolves:
  "fst (unloadMFE name s) = Inr True \<or> fst (unloadMFE name s) = Inr False"
  by (cases s) (auto simp add: unloadMFE_def Let_def split: option.splits sum.splits)

lemma unloadMFE_removes: "loadedMFEs (fst (snd (unloadMFE name s))) name = None"
  by (cases s) (auto simp add: unloadMFE_def Let_def split: option.splits sum.splits)

lemma unloadMFE_others:
  "other \<noteq> name \<Longrightarrow> loadedMFEs (fst (snd (unloadMFE name s))) other = loadedMFEs (fst s) other"
  by (cases s) (auto simp add: unloadMFE_def Let_def split: option.splits sum.splits)

lemma unloadMFE_not_loaded:
  assumes "loadedMFEs l name = None"
  shows "unloadMFE name (l, w) = (Inr False, l, emit (ConsoleWarn (''MFE '' @ quoted name @ '' is not loaded'')) w)"
  using assms by (simp add: unloadMFE_def)

lemmas demo_defs = demo_env_def demo_loader_def demo_world_def demo_dom_def demo_first_match_def null_mount_def
  demo_loadRemoteModule_def module_of_def demo_mount_def stubborn_mount_def bare_mount_def broken_mount_def
  demo_unmount_def failing_unmount_def MFELoader_new_def app_root_def blank_node_def

lemmas loader_defs = loadMFE_def loadMFE_try_def mount_stage_def getOrCreateContainer_def unload_existing_def
  importRemoteModule_def importRemoteModule_try_def initFederation_def bootstrapMFE_def
  call_ext_def emit_def js_or_def unloadMFE_def cleanup_instance_def invoke_teardown_def
  displayError_def displayError_try_def container_in_catch_def message_text_def
  document_querySelector_def

lemma stubborn_loaded_eval:
  "loadedMFEs (fst stubborn_loaded) ''stubborn'' =
     Some \<lparr>md_name = ''stubborn'', md_container = 0,
           md_instance = Object (Function (RemoteFn failing_unmount)) Missing,
           md_loadedAt = 0, md_options = []\<rparr>"
  "currentMFE (fst stubborn_loaded) = Some ''stubborn''"
  "calls_of (trace (snd stubborn_loaded)) = [CallInitFederation, CallLoadRemoteModule ''stubborn'' ''./bootstrap'', CallMount 0]"
  by (simp_all add: stubborn_loaded_def loader_defs demo_defs Let_def)

lemma unloadMFE_teardown_throws:
  assumes "loadedMFEs l name = Some md"
    and "fst (cleanup_instance name (md_instance md) (emit (ConsoleLog (''Unloading MFE: '' @ name)) w)) = Inl e"
  shows "fst (unloadMFE name (l, w)) = Inr False"
    and "fst (snd (unloadMFE name (l, w))) = l\<lparr>loadedMFEs := (loadedMFEs l)(name := None)\<rparr>"
  using assms by (simp_all add: unloadMFE_def Let_def)

lemma failing_unmount_throws:
  "fst (cleanup_instance name (Object (Function (RemoteFn failing_unmount)) d) w) = Inl (new_Error ''destroy failed'')"
  by (simp add: cleanup_instance_def invoke_teardown_def failing_unmount_def)

text \<open>When the \<^verbatim>\<open>try\<close> block of \<^verbatim>\<open>_displayError\<close> throws, so does its \<^verbatim>\<open>catch\<close> block.\<close>

lemma displayError_catch_throws:
  assumes "fst (displayError_try env containerSelector mfeName error w) = Inl derr"
  shows "fst (displayError env containerSelector mfeName error w)
           = Inl (new_ReferenceError ''container is not defined'')"
  using assms
  by (cases "displayError_try env containerSelector mfeName error w")
     (simp add: displayError_def container_in_catch_def)

subsection \<open>Claims about unloading\<close>

text \<open>
  C5. \<^verbatim>\<open>unloadMFE(name)\<close> always resolves, to \<^verbatim>\<open>true\<close> or \<^verbatim>\<open>false\<close>, and afterwards the name is
  not loaded. When the name is not loaded to begin with, the result is \<^verbatim>\<open>false\<close> and neither
  the loader nor the page changes (the console gets a warning). When the name is loaded and
  its teardown throws, the result is \<^verbatim>\<open>false\<close>, and the entry is gone all the same.
\<close>

theorem unloadMFE_always_unloads:
  "(fst (unloadMFE name (l, w)) = Inr True \<or> fst (unloadMFE name (l, w)) = Inr False)
   \<and> \<not> isLoaded (fst (snd (unloadMFE name (l, w)))) name
   \<and> (\<not> isLoaded l name \<longrightarrow>
        unloadMFE name (l, w)
          = (Inr False, l, w\<lparr>trace := trace w @ [ConsoleWarn (''MFE '' @ quoted name @ '' is not loaded'')]\<rparr>))
   \<and> (\<forall>md e. loadedMFEs l name = Some md
          \<and> fst (cleanup_instance name (md_instance md)
                   (emit (ConsoleLog (''Unloading MFE: '' @ name)) w)) = Inl e
        \<longrightarrow> fst (unloadMFE name (l, w)) = Inr False)"
proof -
  have absent: "unloadMFE name (l, w)
          = (Inr False, l, w\<lparr>trace := trace w @ [ConsoleWarn (''MFE '' @ quoted name @ '' is not loaded'')]\<rparr>)"
    if "\<not> isLoaded l name"
    using that unloadMFE_not_loaded [of l name w] by (simp add: isLoaded_def domIff emit_def)
  have thrown: "fst (unloadMFE name (l, w)) = Inr False"
    if "loadedMFEs l name = Some md"
      and "fst (cleanup_instance name (md_instance md)
                   (emit (ConsoleLog (''Unloading MFE: '' @ name)) w)) = Inl e" for md e
    using that by (simp add: unloadMFE_def Let_def)
  show ?thesis
    using unloadMFE_resolves [of name "(l, w)"] unloadMFE_removes [of name "(l, w)"] absent thrown
    by (simp add: isLoaded_def domIff)
qed

theorem unloadMFE_always_unloads_witness:
  "\<not> isLoaded demo_loader ''mfe1''
   \<and> unloadMFE ''mfe1'' (demo_loader, demo_world)
       = (Inr False, demo_loader,
          demo_world\<lparr>trace := trace demo_world @ [ConsoleWarn (''MFE '' @ quoted ''mfe1'' @ '' is not loaded'')]\<rparr>)
   \<and> isLoaded (fst stubborn_loaded) ''stubborn''
   \<and> fst (unloadMFE ''stubborn'' stubborn_loaded) = Inr False
   \<and> \<not> isLoaded (fst (snd (unloadMFE ''stubborn'' stubborn_loaded))) ''stubborn''"
proof -
  have absent: "\<not> isLoaded demo_loader ''mfe1''"
    by (simp add: isLoaded_def demo_loader_def MFELoader_new_def)
  have present: "isLoaded (fst stubborn_loaded) ''stubborn''"
    by (simp add: isLoaded_def domIff stubborn_loaded_eval(1))
  from unloadMFE_always_unloads [of "''mfe1''" demo_loader demo_world]
    unloadMFE_always_unloads [of "''stubborn''" "fst stubborn_loaded" "snd stubborn_loaded"]
    absent present stubborn_loaded_eval(1) failing_unmount_throws
  show ?thesis
    by simp
qed

text \<open>
  C9 fails on the code. On a fresh loader the run \<^verbatim>\<open>loadMFE('stubborn', container)\<close>,
  \<^verbatim>\<open>unloadMFE('stubborn')\<close> ends in a state where \<^verbatim>\<open>getCurrentMFE()\<close> is \<^verbatim>\<open>'stubborn'\<close> and
  \<^verbatim>\<open>isLoaded('stubborn')\<close> is false: the \<^verbatim>\<open>unmount\<close> of that remote throws, and the \<^verbatim>\<open>catch\<close>
  branch of lines 122 to 127 deletes the map entry and leaves \<^verbatim>\<open>currentMFE\<close> as it is.
\<close>

theorem current_mfe_dangles_after_failed_teardown:
  "isLoaded (fst (run_calls demo_env [LoadMFE ''stubborn'' (HTMLElement 0) []]
       (demo_loader, demo_world))) ''stubborn''
   \<and> fst (unloadMFE ''stubborn'' (run_calls demo_env [LoadMFE ''stubborn'' (HTMLElement 0) []]
       (demo_loader, demo_world))) = Inr False
   \<and> getCurrentMFE (fst (run_calls demo_env
         [LoadMFE ''stubborn'' (HTMLElement 0) [], UnloadMFE ''stubborn'']
         (demo_loader, demo_world))) = Some ''stubborn''
   \<and> \<not> isLoaded (fst (run_calls demo_env
         [LoadMFE ''stubborn'' (HTMLElement 0) [], UnloadMFE ''stubborn'']
         (demo_loader, demo_world))) ''stubborn''"
proof -
  have loaded: "run_calls demo_env [LoadMFE ''stubborn'' (HTMLElement 0) []]
       (demo_loader, demo_world) = stubborn_loaded"
    by (simp add: stubborn_loaded_def)
  have unloaded: "run_calls demo_env [LoadMFE ''stubborn'' (HTMLElement 0) [], UnloadMFE ''stubborn'']
       (demo_loader, demo_world) = snd (unloadMFE ''stubborn'' stubborn_loaded)"
    by (simp add: stubborn_loaded_def)
  have throws: "fst (cleanup_instance ''stubborn''
                  (md_instance \<lparr>md_name = ''stubborn'', md_container = 0,
                      md_instance = Object (Function (RemoteFn failing_unmount)) Missing,
                      md_loadedAt = 0, md_options = []\<rparr>)
                  (emit (ConsoleLog (''Unloading MFE: '' @ ''stubborn'')) (snd stubborn_loaded)))
                = Inl (new_Error ''destroy failed'')"
    by (simp add: failing_unmount_throws)
  note after = unloadMFE_teardown_throws [OF stubborn_loaded_eval(1) throws, simplified]
  show ?thesis
    unfolding loaded unloaded
    by (simp add: after isLoaded_def getCurrentMFE_def stubborn_loaded_eval domIff)
qed

text \<open>
  C7 fails on the code. With the empty selector, \<^verbatim>\<open>document.querySelector\<close> throws inside the
  \<^verbatim>\<open>try\<close> block of \<^verbatim>\<open>_displayError\<close>; the \<^verbatim>\<open>catch\<close> block then reads \<^verbatim>\<open>container\<close>, which is
  not in scope there, so \<^verbatim>\<open>_displayError\<close> throws a \<^verbatim>\<open>ReferenceError\<close> instead of rendering the
  static message, and \<^verbatim>\<open>loadMFE\<close> rejects with that error.
\<close>

theorem displayError_throws_on_bad_selector:
  "displayError demo_env (Selector []) ''mfe1'' (new_Error ''boom'') demo_world
     = (Inl (new_ReferenceError ''container is not defined''),
        demo_world\<lparr>trace := [ConsoleError ''Failed to display error message:'' invalid_selector]\<rparr>)
   \<and> fst (loadMFE demo_env ''mfe1'' (Selector []) [] (demo_loader, demo_world))
       = Inl (new_ReferenceError ''container is not defined'')"
  by (simp add: loader_defs demo_defs Let_def)

subsection \<open>Auxiliary facts about loading\<close>

lemma prefix_emit: "prefix xs (trace w) \<Longrightarrow> prefix xs (trace (emit ev w))"
  by (simp add: prefix_def) auto

lemma prefix_calls_of: "prefix xs ys \<Longrightarrow> prefix (calls_of xs) (calls_of ys)"
  by (auto simp: prefix_def)

lemma call_ext_clock [simp]: "clock (snd (call_ext c f w)) = clock w"
  by (simp add: call_ext_def split: prod.splits)

lemma invoke_teardown_prefix:
  assumes "prefix xs (trace w @ [Call c])"
  shows "prefix xs (trace (snd (invoke_teardown c t w)))"
proof (cases t)
  case (ClearContainer container)
  from prefix_prefix [OF assms,
      of "[ConsoleWarn ''No unmount method available, clearing container manually'']"]
  show ?thesis
    by (simp add: ClearContainer invoke_teardown_def)
next
  case (RemoteFn f)
  with assms show ?thesis
    by (simp add: invoke_teardown_def)
qed

lemma unloadMFE_result:
  "unloadMFE name s = (r, s') \<Longrightarrow> r = Inr True \<or> r = Inr False"
  using unloadMFE_resolves [of name s] by simp

lemma cleanup_instance_prefix:
  "prefix xs (trace w) \<Longrightarrow> prefix xs (trace (snd (cleanup_instance name inst w)))"
proof -
  assume p: "prefix xs (trace w)"
  then have q: "prefix xs (trace w @ [Call c])" for c
    by (auto simp: prefix_def)
  show ?thesis
    using p q
    by (auto simp add: cleanup_instance_def invoke_teardown_prefix split: mfeInstance.splits member.splits)
qed

lemma cleanup_instance_unmount:
  assumes "has_unmount inst" and "prefix xs (trace w @ [Call (CallUnmount name)])"
  shows "prefix xs (trace (snd (cleanup_instance name inst w)))"
  using assms
  by (auto simp add: cleanup_instance_def has_unmount_def invoke_teardown_prefix
      split: mfeInstance.splits member.splits)

lemma unloadMFE_prefix:
  assumes "unloadMFE name (l, w) = (r, l', w')" and "prefix xs (trace w)"
  shows "prefix xs (trace w')"
  using assms
  by (auto simp add: unloadMFE_def Let_def prefix_emit cleanup_instance_prefix
      split: option.splits sum.splits if_splits)

lemma unloadMFE_unmount_called:
  assumes "unloadMFE name (l, w) = (r, l', w')"
    and "loadedMFEs l name = Some md" and "has_unmount (md_instance md)"
  shows "prefix (trace w @ [ConsoleLog (''Unloading MFE: '' @ name), Call (CallUnmount name)]) (trace w')"
proof -
  let ?w1 = "emit (ConsoleLog (''Unloading MFE: '' @ name)) w"
  have "prefix (trace w @ [ConsoleLog (''Unloading MFE: '' @ name), Call (CallUnmount name)])
          (trace (snd (cleanup_instance name (md_instance md) ?w1)))"
    by (rule cleanup_instance_unmount [OF assms(3)]) simp
  then show ?thesis
    using assms(1,2)
    by (auto simp add: unloadMFE_def Let_def prefix_emit split: sum.splits if_splits)
qed

lemma unloadMFE_frame:
  assumes "unloadMFE name (l, w) = (r, l', w')"
  shows "loadedMFEs l' = (loadedMFEs l)(name := None)"
    and "federationInitialized l' = federationInitialized l"
    and "loadRemoteModule l' = loadRemoteModule l"
  using assms
  by (auto simp add: unloadMFE_def Let_def fun_eq_iff split: option.splits sum.splits if_splits)

lemma unload_existing_frame:
  assumes "unload_existing name (l, w) = (r, l', w')"
  shows "r = Inr ()" and "loadedMFEs l' = (loadedMFEs l)(name := None)"
    and "prefix xs (trace w) \<Longrightarrow> prefix xs (trace w')"
proof -
  show "r = Inr ()"
    using assms
    by (auto simp add: unload_existing_def dest: unloadMFE_result
        split: if_splits prod.splits sum.splits)
  show "loadedMFEs l' = (loadedMFEs l)(name := None)"
    using assms
    by (auto simp add: unload_existing_def fun_eq_iff domIff dest!: unloadMFE_frame(1)
        split: if_splits prod.splits sum.splits)
  show "prefix xs (trace w')" if p: "prefix xs (trace w)"
  proof (cases "name \<in> dom (loadedMFEs l)")
    case True
    then obtain b where "unloadMFE name
        (l, emit (ConsoleWarn (''MFE '' @ quoted name @ '' is already loaded. Unloading first.'')) w)
        = (b, l', w')"
      using assms by (auto simp add: unload_existing_def split: prod.splits sum.splits)
    from unloadMFE_prefix [OF this prefix_emit [OF p]] show ?thesis .
  next
    case False
    with assms p show ?thesis
      by (simp add: unload_existing_def)
  qed
qed

lemma unload_existing_unmount_called:
  assumes "unload_existing name (l, w) = (r, l', w')"
    and "loadedMFEs l name = Some md" and "has_unmount (md_instance md)"
  shows "prefix (calls_of (trace w) @ [CallUnmount name]) (calls_of (trace w'))"
proof -
  let ?w0 = "emit (ConsoleWarn (''MFE '' @ quoted name @ '' is already loaded. Unloading first.'')) w"
  obtain b where un: "unloadMFE name (l, ?w0) = (b, l', w')"
    using assms(1,2)
    by (auto simp add: unload_existing_def domIff split: prod.splits sum.splits)
  from prefix_calls_of [OF unloadMFE_unmount_called [OF un assms(2,3)]]
  show ?thesis by simp
qed

lemma call_ext_traceD:
  "call_ext c f w = (r, w') \<Longrightarrow> trace w' = trace w @ [Call c]"
  by (auto simp add: call_ext_def split: prod.splits)

lemma initFederation_frame:
  assumes "initFederation env (l, w) = (r, l', w')"
  shows "loadedMFEs l' = loadedMFEs l" and "currentMFE l' = currentMFE l"
    and "prefix xs (trace w) \<Longrightarrow> prefix xs (trace w')"
  using assms
  by (auto simp add: initFederation_def Let_def prefix_emit dest!: call_ext_traceD
      split: if_splits prod.splits sum.splits)

lemma importRemoteModule_try_frame:
  assumes "importRemoteModule_try env name (l, w) = (r, l', w')"
  shows "loadedMFEs l' = loadedMFEs l" and "currentMFE l' = currentMFE l"
    and "prefix xs (trace w) \<Longrightarrow> prefix xs (trace w')"
proof -
  let ?w0 = "emit (ConsoleLog (''Loading remote module '' @ quoted name @
                          '' via vanilla-native-federation...'')) w"
  obtain r1 l1 w1 where init: "initFederation env (l, ?w0) = (r1, l1, w1)"
    by (cases "initFederation env (l, ?w0)") auto
  have l': "l' = l1"
    using assms init
    by (auto simp add: importRemoteModule_try_def Let_def split: sum.splits option.splits prod.splits)
  show "loadedMFEs l' = loadedMFEs l" and "currentMFE l' = currentMFE l"
    using initFederation_frame(1,2) [OF init] l' by simp_all
  show "prefix xs (trace w')" if p: "prefix xs (trace w)"
  proof -
    have "prefix xs (trace w1)"
      by (rule initFederation_frame(3) [OF init prefix_emit [OF p]])
    then show ?thesis
      using assms init
      by (auto simp add: importRemoteModule_try_def Let_def prefix_emit dest!: call_ext_traceD
          split: sum.splits option.splits prod.splits)
  qed
qed

lemma importRemoteModule_frame:
  assumes "importRemoteModule env name (l, w) = (r, l', w')"
  shows "loadedMFEs l' = loadedMFEs l" and "currentMFE l' = currentMFE l"
    and "prefix xs (trace w) \<Longrightarrow> prefix xs (trace w')"
proof -
  obtain r1 l1 w1 where tr: "importRemoteModule_try env name (l, w) = (r1, l1, w1)"
    by (cases "importRemoteModule_try env name (l, w)") auto
  have l': "l' = l1"
    using assms tr
    by (auto simp add: importRemoteModule_def Let_def split: sum.splits)
  show "loadedMFEs l' = loadedMFEs l" and "currentMFE l' = currentMFE l"
    using importRemoteModule_try_frame(1,2) [OF tr] l' by simp_all
  show "prefix xs (trace w')" if p: "prefix xs (trace w)"
    using importRemoteModule_try_frame(3) [OF tr p] assms tr
    by (auto simp add: importRemoteModule_def Let_def prefix_emit split: sum.splits)
qed

lemma bootstrapMFE_prefix:
  assumes "bootstrapMFE rm container opts w = (r, w')" and "prefix xs (trace w)"
  shows "prefix xs (trace w')"
  using assms
  by (auto simp add: bootstrapMFE_def Let_def prefix_emit dest!: call_ext_traceD
      split: option.splits member.splits prod.splits sum.splits mfeInstance.splits)

lemma bootstrapMFE_has_unmount:
  assumes "bootstrapMFE rm container opts w = (Inr inst, w')"
  shows "has_unmount inst"
  using assms
  by (auto simp add: bootstrapMFE_def Let_def has_unmount_def
      split: option.splits member.splits prod.splits sum.splits mfeInstance.splits)

lemma getOrCreateContainer_trace:
  "getOrCreateContainer env c w = (r, w') \<Longrightarrow> trace w' = trace w"
  by (auto simp add: getOrCreateContainer_def create_container_def
      split: container_arg.splits sum.splits option.splits prod.splits)

lemma loadMFE_try_resolved:
  assumes g: "getOrCreateContainer env c (emit (ConsoleLog (''Loading MFE: '' @ name)) w)
                = (Inr (Some container), w1)"
  shows "loadMFE_try env name c opts (l, w)
           = mount_stage env name container opts (snd (unload_existing name (l, w1)))"
proof -
  obtain ru l2 w2 where u: "unload_existing name (l, w1) = (ru, l2, w2)"
    by (cases "unload_existing name (l, w1)") auto
  have "ru = Inr ()"
    by (rule unload_existing_frame(1) [OF u])
  with g u show ?thesis
    by (simp add: loadMFE_try_def mount_stage_def)
qed

lemma mount_stage_frame:
  assumes m: "mount_stage env name container opts (l2, w2) = (r, l', w')"
  shows "other \<noteq> name \<Longrightarrow> loadedMFEs l' other = loadedMFEs l2 other"
    and "r = Inl cause \<Longrightarrow> loadedMFEs l' name = loadedMFEs l2 name"
    and "r = Inr md \<Longrightarrow> loadedMFEs l' name = Some md \<and> currentMFE l' = Some name
           \<and> has_unmount (md_instance md) \<and> md_container md = container \<and> md_name md = name"
    and "prefix xs (trace w2) \<Longrightarrow> prefix xs (trace w')"
proof -
  obtain ri l3 w3 where i: "importRemoteModule env name (l2, w2) = (ri, l3, w3)"
    by (cases "importRemoteModule env name (l2, w2)") auto
  note fr = importRemoteModule_frame [OF i]
  show "loadedMFEs l' other = loadedMFEs l2 other" if "other \<noteq> name"
    using m i that fr(1)
    by (auto simp add: mount_stage_def Let_def split: sum.splits prod.splits)
  show "loadedMFEs l' name = loadedMFEs l2 name" if "r = Inl cause"
    using m i that fr(1)
    by (auto simp add: mount_stage_def Let_def split: sum.splits prod.splits)
  show "loadedMFEs l' name = Some md \<and> currentMFE l' = Some name
           \<and> has_unmount (md_instance md) \<and> md_container md = container \<and> md_name md = name" if "r = Inr md"
    using m i that
    by (auto simp add: mount_stage_def Let_def dest: bootstrapMFE_has_unmount
        split: sum.splits prod.splits)
  show "prefix xs (trace w')" if p: "prefix xs (trace w2)"
    using m i fr(3) [OF p]
    by (auto simp add: mount_stage_def Let_def prefix_emit dest: bootstrapMFE_prefix
        split: sum.splits prod.splits)
qed

lemma getOrCreateContainer_resolvable:
  "resolvable env c \<longleftrightarrow> (\<exists>container. fst (getOrCreateContainer env c w) = Inr (Some container))"
  by (auto simp add: resolvable_def getOrCreateContainer_def document_querySelector_def
      create_container_def split: container_arg.splits option.splits prod.splits)


lemma loadMFE_try_frame:
  assumes t: "loadMFE_try env name c opts (l, w) = (r, l', w')"
  shows "other \<noteq> name \<Longrightarrow> loadedMFEs l' other = loadedMFEs l other"
    and "r = Inr md \<Longrightarrow> resolvable env c \<and> loadedMFEs l' name = Some md \<and> currentMFE l' = Some name
           \<and> has_unmount (md_instance md) \<and> md_name md = name"
    and "r = Inl cause \<Longrightarrow> resolvable env c \<Longrightarrow> loadedMFEs l' name = None"
    and "prefix xs (trace w) \<Longrightarrow> prefix xs (trace w')"
    and "loadedMFEs l name = Some md1 \<Longrightarrow> has_unmount (md_instance md1) \<Longrightarrow> resolvable env c \<Longrightarrow>
           prefix (calls_of (trace w) @ [CallUnmount name]) (calls_of (trace w'))"
proof -
  let ?w0 = "emit (ConsoleLog (''Loading MFE: '' @ name)) w"
  obtain rg w1 where g: "getOrCreateContainer env c ?w0 = (rg, w1)"
    by (cases "getOrCreateContainer env c ?w0") auto
  have tr1: "trace w1 = trace w @ [ConsoleLog (''Loading MFE: '' @ name)]"
    using getOrCreateContainer_trace [OF g] by simp
  obtain ru l2 w2 where u: "unload_existing name (l, w1) = (ru, l2, w2)"
    by (cases "unload_existing name (l, w1)") auto
  note uf = unload_existing_frame [OF u]
  have stage: "mount_stage env name container opts (l2, w2) = (r, l', w')"
    if "rg = Inr (Some container)" for container
    using loadMFE_try_resolved [of env c name w container w1 opts l] g t u that by simp
  have unresolved: "l' = l \<and> trace w' = trace w1 \<and> (\<exists>e. r = Inl e)"
    if "\<forall>container. rg \<noteq> Inr (Some container)"
    using t g that
    by (auto simp add: loadMFE_try_def split: sum.splits option.splits)
  have res: "resolvable env c \<longleftrightarrow> (\<exists>container. rg = Inr (Some container))"
    using getOrCreateContainer_resolvable [of env c ?w0] g by simp
  show "loadedMFEs l' other = loadedMFEs l other" if "other \<noteq> name"
  proof (cases "\<exists>container. rg = Inr (Some container)")
    case True
    then obtain container where "rg = Inr (Some container)" ..
    from mount_stage_frame(1) [OF stage [OF this] that] uf(2) that show ?thesis
      by simp
  next
    case False
    with unresolved show ?thesis by simp
  qed
  show "resolvable env c \<and> loadedMFEs l' name = Some md \<and> currentMFE l' = Some name
           \<and> has_unmount (md_instance md) \<and> md_name md = name" if "r = Inr md"
  proof (cases "\<exists>container. rg = Inr (Some container)")
    case True
    then obtain container where c: "rg = Inr (Some container)" ..
    from mount_stage_frame(3) [OF stage [OF c] that] res c show ?thesis
      by simp
  next
    case False
    with unresolved that show ?thesis by auto
  qed
  show "loadedMFEs l' name = None" if "r = Inl cause" and "resolvable env c"
  proof -
    from that(2) res obtain container where c: "rg = Inr (Some container)" by auto
    from mount_stage_frame(2) [OF stage [OF c] that(1)] uf(2) show ?thesis
      by simp
  qed
  show "prefix xs (trace w')" if p: "prefix xs (trace w)"
  proof (cases "\<exists>container. rg = Inr (Some container)")
    case True
    then obtain container where c: "rg = Inr (Some container)" ..
    have "prefix xs (trace w1)"
      using p tr1 by simp
    from mount_stage_frame(4) [OF stage [OF c] uf(3) [OF this]] show ?thesis .
  next
    case False
    with unresolved p tr1 show ?thesis by simp
  qed
  show "prefix (calls_of (trace w) @ [CallUnmount name]) (calls_of (trace w'))"
    if "loadedMFEs l name = Some md1" and "has_unmount (md_instance md1)" and "resolvable env c"
  proof -
    from that(3) res obtain container where c: "rg = Inr (Some container)" by auto
    have "prefix (calls_of (trace w1) @ [CallUnmount name]) (calls_of (trace w2))"
      by (rule unload_existing_unmount_called [OF u that(1,2)])
    then have "prefix (calls_of (trace w) @ [CallUnmount name]) (calls_of (trace w2))"
      using tr1 by simp
    moreover have "prefix (calls_of (trace w2)) (calls_of (trace w'))"
      by (rule prefix_calls_of [OF mount_stage_frame(4) [OF stage [OF c]]]) simp
    ultimately show ?thesis
      by (rule prefix_order.trans)
  qed
qed

lemma show_fallback_fields [simp]:
  "trace (show_fallback e n err w) = trace w"
  "innerHTML (nodes (document (show_fallback e n err w)) e) = [createMFEFallback n err True True]"
  by (simp_all add: show_fallback_def appendChild_def set_innerHTML_def)

lemma displayError_resolvable:
  assumes "resolvable env c"
  shows "fst (displayError env c name cause w) = Inr ()"
    and "trace (snd (displayError env c name cause w)) = trace w"
    and "display_target env c (document w) = Some e \<Longrightarrow>
           innerHTML (nodes (document (snd (displayError env c name cause w))) e)
             = [createMFEFallback name cause True True]"
  using assms
  by (auto simp add: displayError_def displayError_try_def resolvable_def display_target_def
      document_querySelector_def split: container_arg.splits option.splits)


lemma displayError_prefix:
  "prefix xs (trace w) \<Longrightarrow> prefix xs (trace (snd (displayError env c name cause w)))"
  by (auto simp add: displayError_def displayError_try_def container_in_catch_def
      document_querySelector_def prefix_emit split: container_arg.splits option.splits)

lemma loadMFE_success_iff:
  "loadMFE env name c opts s = (Inr md, s') \<longleftrightarrow> loadMFE_try env name c opts s = (Inr md, s')"
  by (cases "loadMFE_try env name c opts s")
     (auto simp add: loadMFE_def Let_def split: sum.splits prod.splits)

lemma loadMFE_failure:
  assumes "loadMFE_try env name c opts s = (Inl cause, l1, w1)"
    and "fst (displayError env c name cause
                (emit (ConsoleError (''Failed to load MFE '' @ quoted name @ '':'') cause) w1)) = Inr ()"
  shows "loadMFE env name c opts s
           = (Inl (rejection name cause), l1,
              snd (displayError env c name cause
                (emit (ConsoleError (''Failed to load MFE '' @ quoted name @ '':'') cause) w1)))"
  using assms
  by (cases "displayError env c name cause
                (emit (ConsoleError (''Failed to load MFE '' @ quoted name @ '':'') cause) w1)")
     (auto simp add: loadMFE_def Let_def rejection_def split: sum.splits)

lemma loadMFE_frame:
  assumes t: "loadMFE_try env name c opts s = (r0, l0, w0)"
  shows "fst (snd (loadMFE env name c opts s)) = l0"
    and "prefix xs (trace w0) \<Longrightarrow> prefix xs (trace (snd (snd (loadMFE env name c opts s))))"
    and "fst (loadMFE env name c opts s) = Inr md \<longleftrightarrow> r0 = Inr md"
proof -
  show "fst (snd (loadMFE env name c opts s)) = l0"
    using t by (auto simp add: loadMFE_def Let_def split: sum.splits prod.splits)
  show "fst (loadMFE env name c opts s) = Inr md \<longleftrightarrow> r0 = Inr md"
    using t by (auto simp add: loadMFE_def Let_def split: sum.splits prod.splits)
  show "prefix xs (trace (snd (snd (loadMFE env name c opts s))))" if p: "prefix xs (trace w0)"
  proof (cases r0)
    case (Inl cause)
    let ?w = "emit (ConsoleError (''Failed to load MFE '' @ quoted name @ '':'') cause) w0"
    have "prefix xs (trace (snd (displayError env c name cause ?w)))"
      by (rule displayError_prefix [OF prefix_emit [OF p]])
    moreover have "snd (snd (loadMFE env name c opts s)) = snd (displayError env c name cause ?w)"
      using t Inl by (auto simp add: loadMFE_def Let_def split: sum.splits prod.splits)
    ultimately show ?thesis by simp
  next
    case (Inr md')
    with t p show ?thesis
      by (simp add: loadMFE_def)
  qed
qed


lemma mfe1_first_load:
  "loadMFE demo_env ''mfe1'' (HTMLElement 0) [] (demo_loader, demo_world) = (Inr mfe1_metadata, mfe1_loaded)"
proof -
  have "fst (loadMFE demo_env ''mfe1'' (HTMLElement 0) [] (demo_loader, demo_world)) = Inr mfe1_metadata"
    by (simp add: loader_defs demo_defs mfe1_metadata_def Let_def)
  then show ?thesis
    by (simp add: mfe1_loaded_def prod_eq_iff)
qed

lemma mfe1_loaded_eval:
  "loadedMFEs (fst mfe1_loaded) ''mfe1'' = Some mfe1_metadata"
  "calls_of (trace (snd mfe1_loaded))
     = [CallInitFederation, CallLoadRemoteModule ''mfe1'' ''./bootstrap'', CallMount 0]"
  "innerHTML (nodes (document (snd mfe1_loaded)) 0) = [app_root]"
  by (simp_all add: mfe1_loaded_def loader_defs demo_defs mfe1_metadata_def Let_def
      appendChild_def set_innerHTML_def)

lemma rejection_message:
  "message_text cause = Inr m \<Longrightarrow>
     rejection name cause = new_Error (''MFE load failed: '' @ name @ '' - '' @ m)"
  "message_text cause = Inl te \<Longrightarrow> rejection name cause = te"
  by (simp_all add: rejection_def)

text \<open>Every entry that a run of calls leaves in the map has a callable \<^verbatim>\<open>unmount\<close>.\<close>

lemma loadMFE_try_unresolved:
  assumes "loadMFE_try env name c opts (l, w) = (r, l', w')" and "\<not> resolvable env c"
  shows "l' = l"
proof -
  let ?w0 = "emit (ConsoleLog (''Loading MFE: '' @ name)) w"
  from assms(2) getOrCreateContainer_resolvable [of env c ?w0]
  have "\<forall>container. fst (getOrCreateContainer env c ?w0) \<noteq> Inr (Some container)"
    by simp
  with assms(1) show ?thesis
    by (cases "getOrCreateContainer env c ?w0")
       (auto simp add: loadMFE_try_def split: sum.splits option.splits)
qed

lemma loadMFE_tracked:
  assumes inv: "\<And>n md. loadedMFEs l n = Some md \<Longrightarrow> has_unmount (md_instance md)"
    and after: "loadedMFEs (fst (snd (loadMFE env name c opts (l, w)))) n = Some md"
  shows "has_unmount (md_instance md)"
proof -
  obtain r l' w' where tried: "loadMFE_try env name c opts (l, w) = (r, l', w')"
    by (cases "loadMFE_try env name c opts (l, w)") auto
  from loadMFE_frame(1) [OF tried] after have md: "loadedMFEs l' n = Some md"
    by simp
  show ?thesis
  proof (cases "n = name")
    case False
    with loadMFE_try_frame(1) [OF tried, of n] md inv show ?thesis
      by simp
  next
    case True
    show ?thesis
    proof (cases r)
      case (Inr md')
      from loadMFE_try_frame(2) [OF tried Inr] md True show ?thesis
        by simp
    next
      case (Inl cause)
      show ?thesis
      proof (cases "resolvable env c")
        case True
        from loadMFE_try_frame(3) [OF tried Inl True] md \<open>n = name\<close> show ?thesis
          by simp
      next
        case False
        from loadMFE_try_unresolved [OF tried False] md inv show ?thesis
          by simp
      qed
    qed
  qed
qed

lemma call_loader_tracked:
  assumes inv: "\<And>n md. loadedMFEs (fst s) n = Some md \<Longrightarrow> has_unmount (md_instance md)"
    and after: "loadedMFEs (fst (call_loader env c s)) n = Some md"
  shows "has_unmount (md_instance md)"
proof (cases c)
  case (LoadMFE name ca opts)
  with loadMFE_tracked [of "fst s" env name ca opts "snd s" n md] inv after show ?thesis
    by simp
next
  case (UnloadMFE name)
  obtain r l' w' where un: "unloadMFE name (fst s, snd s) = (r, l', w')"
    by (cases "unloadMFE name (fst s, snd s)") auto
  from unloadMFE_frame(1) [OF un] after UnloadMFE un inv [of n md] show ?thesis
    by (simp split: if_splits)
qed

lemma run_calls_tracked:
  assumes "\<And>n md. loadedMFEs (fst s) n = Some md \<Longrightarrow> has_unmount (md_instance md)"
    and "loadedMFEs (fst (run_calls env cs s)) n = Some md"
  shows "has_unmount (md_instance md)"
  using assms
proof (induction cs arbitrary: s)
  case Nil
  then show ?case by simp
next
  case (Cons c cs)
  show ?case
  proof (rule Cons.IH [of "call_loader env c s"])
    show "has_unmount (md_instance md')"
      if "loadedMFEs (fst (call_loader env c s)) n' = Some md'" for n' md'
      using call_loader_tracked [of s env c n' md'] Cons.prems(1) that by blast
    show "loadedMFEs (fst (run_calls env cs (call_loader env c s))) n = Some md"
      using Cons.prems(2) by simp
  qed
qed

lemma run_calls_fresh_tracked:
  "loadedMFEs (fst (run_calls env cs (MFELoader_new, w))) n = Some md \<Longrightarrow> has_unmount (md_instance md)"
  by (rule run_calls_tracked [of "(MFELoader_new, w)"]) (simp_all add: MFELoader_new_def)

text \<open>The container lookup commutes with a console line, and changes only the page.\<close>

lemma getOrCreateContainer_emit:
  "getOrCreateContainer env c (emit ev w)
     = (fst (getOrCreateContainer env c w), emit ev (snd (getOrCreateContainer env c w)))"
  by (simp add: getOrCreateContainer_def emit_def create_container_def
      split: container_arg.splits sum.splits option.splits)

lemma getOrCreateContainer_keeps:
  assumes "getOrCreateContainer env c w = (r, w')"
  shows "ext w' = ext w" and "clock w' = clock w" and "trace w' = trace w"
  using assms
  by (auto simp add: getOrCreateContainer_def create_container_def
      split: container_arg.splits sum.splits option.splits)

text \<open>unloadMFE, for an entry with a callable unmount, in terms of what that function does.\<close>

lemma invoke_teardown_result:
  assumes "teardown_result t (document w, ext w) = (rt, dt, xt)"
  shows "fst (invoke_teardown c t w) = rt"
    and "document (snd (invoke_teardown c t w)) = dt"
    and "ext (snd (invoke_teardown c t w)) = xt"
    and "clock (snd (invoke_teardown c t w)) = clock w"
    and "calls_of (trace (snd (invoke_teardown c t w))) = calls_of (trace w) @ [c]"
  using assms
  by (cases t; auto simp add: invoke_teardown_def teardown_result_def emit_def call_ext_def
      split: prod.splits)+

lemma unloadMFE_with_unmount:
  assumes entry: "loadedMFEs l name = Some md"
    and inst: "md_instance md = Object (Function t) dm"
    and torn: "teardown_result t (document w, ext w) = (rt, dt, xt)"
  shows "document (snd (snd (unloadMFE name (l, w))))
           = (if rt = Inr () \<and> parentNode (nodes dt (md_container md))
              then set_innerHTML (md_container md) [] dt else dt)"
    and "ext (snd (snd (unloadMFE name (l, w)))) = xt"
    and "clock (snd (snd (unloadMFE name (l, w)))) = clock w"
    and "calls_of (trace (snd (snd (unloadMFE name (l, w))))) = calls_of (trace w) @ [CallUnmount name]"
    and "loadedMFEs (fst (snd (unloadMFE name (l, w)))) = (loadedMFEs l)(name := None)"
    and "federationInitialized (fst (snd (unloadMFE name (l, w)))) = federationInitialized l"
    and "loadRemoteModule (fst (snd (unloadMFE name (l, w)))) = loadRemoteModule l"
proof -
  define w1 where "w1 = emit (ConsoleLog (''Unloading MFE: '' @ name)) w"
  define cr where "cr = cleanup_instance name (md_instance md) w1"
  have torn1: "teardown_result t (document w1, ext w1) = (rt, dt, xt)"
    using torn by (simp add: w1_def)
  have cl: "cr = invoke_teardown (CallUnmount name) t w1"
    by (simp add: cr_def cleanup_instance_def inst)
  note it = invoke_teardown_result [OF torn1, of "CallUnmount name", folded cl]
  have w1: "clock w1 = clock w" "calls_of (trace w1) = calls_of (trace w)"
    by (simp_all add: w1_def)
  let ?cr = "cleanup_instance name (md_instance md) (emit (ConsoleLog (''Unloading MFE: '' @ name)) w)"
  have u0: "unloadMFE name (l, w) =
     (case fst ?cr of
        Inl error \<Rightarrow>
          (Inr False, l\<lparr>loadedMFEs := (loadedMFEs l)(name := None)\<rparr>,
           emit (ConsoleError (''Error unloading MFE '' @ quoted name @ '':'') error) (snd ?cr))
      | Inr u \<Rightarrow>
          (Inr True,
           (if currentMFE l = Some name
            then l\<lparr>loadedMFEs := (loadedMFEs l)(name := None), currentMFE := None\<rparr>
            else l\<lparr>loadedMFEs := (loadedMFEs l)(name := None)\<rparr>),
           emit (ConsoleLog (''MFE '' @ quoted name @ '' unloaded successfully''))
             (if parentNode (nodes (document (snd ?cr)) (md_container md))
              then (snd ?cr)\<lparr>document := set_innerHTML (md_container md) [] (document (snd ?cr))\<rparr>
              else snd ?cr)))"
    using entry by (simp add: unloadMFE_def Let_def split: sum.splits)
  note u = u0 [folded w1_def, folded cr_def]
  show "document (snd (snd (unloadMFE name (l, w))))
           = (if rt = Inr () \<and> parentNode (nodes dt (md_container md))
              then set_innerHTML (md_container md) [] dt else dt)"
    unfolding u using it by (cases rt) simp_all
  show "ext (snd (snd (unloadMFE name (l, w)))) = xt"
    unfolding u using it by (cases rt) simp_all
  show "clock (snd (snd (unloadMFE name (l, w)))) = clock w"
    unfolding u using it w1 by (cases rt) simp_all
  show "calls_of (trace (snd (snd (unloadMFE name (l, w))))) = calls_of (trace w) @ [CallUnmount name]"
    unfolding u using it w1 by (cases rt) simp_all
  show "loadedMFEs (fst (snd (unloadMFE name (l, w)))) = (loadedMFEs l)(name := None)"
    unfolding u using it by (cases rt) simp_all
  show "federationInitialized (fst (snd (unloadMFE name (l, w)))) = federationInitialized l"
    unfolding u using it by (cases rt) simp_all
  show "loadRemoteModule (fst (snd (unloadMFE name (l, w)))) = loadRemoteModule l"
    unfolding u using it by (cases rt) simp_all
qed

lemma importRemoteModule_try_initialized:
  assumes init: "federationInitialized l" and lib: "loadRemoteModule l = Some f"
    and loaded: "f name ''./bootstrap'' (document w, ext w) = (ri, di, xi)"
  shows "fst (importRemoteModule_try env name (l, w)) = ri"
    and "fst (snd (importRemoteModule_try env name (l, w))) = l"
    and "document (snd (snd (importRemoteModule_try env name (l, w)))) = di"
    and "ext (snd (snd (importRemoteModule_try env name (l, w)))) = xi"
    and "clock (snd (snd (importRemoteModule_try env name (l, w)))) = clock w"
    and "calls_of (trace (snd (snd (importRemoteModule_try env name (l, w)))))
           = calls_of (trace w) @ [CallLoadRemoteModule name ''./bootstrap'']"
  using assms
  by (cases ri; simp add: importRemoteModule_try_def initFederation_def Let_def call_ext_def)+

lemma importRemoteModule_initialized:
  assumes init: "federationInitialized l" and lib: "loadRemoteModule l = Some f"
    and loaded: "f name ''./bootstrap'' (document w, ext w) = (ri, di, xi)"
  shows "fst (snd (importRemoteModule env name (l, w))) = l"
    and "document (snd (snd (importRemoteModule env name (l, w)))) = di"
    and "ext (snd (snd (importRemoteModule env name (l, w)))) = xi"
    and "clock (snd (snd (importRemoteModule env name (l, w)))) = clock w"
    and "calls_of (trace (snd (snd (importRemoteModule env name (l, w)))))
           = calls_of (trace w) @ [CallLoadRemoteModule name ''./bootstrap'']"
    and "\<And>m. ri = Inr m \<Longrightarrow> fst (importRemoteModule env name (l, w)) = Inr m"
    and "\<And>e. ri = Inl e \<Longrightarrow> \<exists>e'. fst (importRemoteModule env name (l, w)) = Inl e'"
    and "\<And>e msg. ri = Inl e \<Longrightarrow> message_text e = Inr msg \<Longrightarrow>
           fst (importRemoteModule env name (l, w))
             = Inl (new_Error (''Failed to import remote module '' @ quoted name @ '': '' @ msg))"
proof -
  note t = importRemoteModule_try_initialized [OF assms, of env]
  obtain r l' w' where e: "importRemoteModule_try env name (l, w) = (r, l', w')"
    by (cases "importRemoteModule_try env name (l, w)") auto
  from t e have f: "r = ri" "l' = l" "document w' = di" "ext w' = xi" "clock w' = clock w"
    "calls_of (trace w') = calls_of (trace w) @ [CallLoadRemoteModule name ''./bootstrap'']"
    by simp_all
  show "fst (snd (importRemoteModule env name (l, w))) = l"
    using f by (simp add: importRemoteModule_def e Let_def split: sum.splits)
  show "document (snd (snd (importRemoteModule env name (l, w)))) = di"
    using f by (simp add: importRemoteModule_def e Let_def split: sum.splits)
  show "ext (snd (snd (importRemoteModule env name (l, w)))) = xi"
    using f by (simp add: importRemoteModule_def e Let_def split: sum.splits)
  show "clock (snd (snd (importRemoteModule env name (l, w)))) = clock w"
    using f by (simp add: importRemoteModule_def e Let_def split: sum.splits)
  show "calls_of (trace (snd (snd (importRemoteModule env name (l, w)))))
           = calls_of (trace w) @ [CallLoadRemoteModule name ''./bootstrap'']"
    using f by (simp add: importRemoteModule_def e Let_def split: sum.splits)
  show "\<And>m. ri = Inr m \<Longrightarrow> fst (importRemoteModule env name (l, w)) = Inr m"
    using f by (simp add: importRemoteModule_def e)
  show "\<And>e. ri = Inl e \<Longrightarrow> \<exists>e'. fst (importRemoteModule env name (l, w)) = Inl e'"
    using f by (auto simp add: importRemoteModule_def e Let_def split: sum.splits)
  show "\<And>e msg. ri = Inl e \<Longrightarrow> message_text e = Inr msg \<Longrightarrow>
           fst (importRemoteModule env name (l, w))
             = Inl (new_Error (''Failed to import remote module '' @ quoted name @ '': '' @ msg))"
    using f by (simp add: importRemoteModule_def e Let_def)
qed

text \<open>The bootstrap in terms of what the mount function does.\<close>

lemma bootstrapMFE_mounted:
  assumes fn: "js_or (js_or (mod_mount m) (mod_bootstrap m)) (mod_default_mount m) = Function mountFn"
    and mounted: "mountFn container opts (document w, ext w) = (Inr result, dn, xn)"
  shows "fst (bootstrapMFE (Some m) container opts w)
           = Inr (if has_unmount result then result
                  else Object (Function (ClearContainer container)) Missing)"
    and "document (snd (bootstrapMFE (Some m) container opts w)) = dn"
    and "ext (snd (bootstrapMFE (Some m) container opts w)) = xn"
    and "clock (snd (bootstrapMFE (Some m) container opts w)) = clock w"
    and "calls_of (trace (snd (bootstrapMFE (Some m) container opts w)))
           = calls_of (trace w) @ [CallMount container]"
    and "trace (snd (bootstrapMFE (Some m) container opts w))
           = trace w @ [ConsoleLog ''Calling MFE mount function...'', Call (CallMount container),
                        ConsoleLog ''MFE mounted successfully'']
             @ (if has_unmount result then []
                else [ConsoleWarn ''MFE mount function did not return a valid unmount method''])"
  using assms
  by (simp_all add: bootstrapMFE_def Let_def call_ext_def has_unmount_def emit_def
      split: mfeInstance.splits member.splits)

lemma bootstrapMFE_mount_fails:
  assumes fn: "js_or (js_or (mod_mount m) (mod_bootstrap m)) (mod_default_mount m) = Function mountFn"
    and mounted: "mountFn container opts (document w, ext w) = (Inl e, dn, xn)"
  shows "fst (bootstrapMFE (Some m) container opts w) = Inl e"
  using assms by (simp add: bootstrapMFE_def Let_def call_ext_def)

lemma initFederation_initialized:
  assumes "initFederation env (l, w) = (Inr (Some f), l', w')"
  shows "federationInitialized l'" and "loadRemoteModule l' = Some f"
  using assms
  by (auto simp add: initFederation_def Let_def split: if_splits prod.splits sum.splits)

lemma importRemoteModule_try_success:
  assumes "importRemoteModule_try env name (l, w) = (Inr rm, l', w')"
  shows "federationInitialized l' \<and> (\<exists>f. loadRemoteModule l' = Some f)"
proof -
  let ?w0 = "emit (ConsoleLog (''Loading remote module '' @ quoted name @
                          '' via vanilla-native-federation...'')) w"
  obtain r1 l1 w1 where init: "initFederation env (l, ?w0) = (r1, l1, w1)"
    by (cases "initFederation env (l, ?w0)") auto
  from assms init obtain f where "r1 = Inr (Some f)" and "l' = l1"
    by (auto simp add: importRemoteModule_try_def Let_def split: sum.splits option.splits prod.splits)
  with initFederation_initialized [of env l ?w0 f l1 w1] init show ?thesis
    by auto
qed

lemma loadMFE_success_initialized:
  assumes "loadMFE env name c opts (l, w) = (Inr md, l', w')"
  shows "federationInitialized l' \<and> (\<exists>f. loadRemoteModule l' = Some f)"
proof -
  from assms have t: "loadMFE_try env name c opts (l, w) = (Inr md, l', w')"
    by (simp add: loadMFE_success_iff)
  let ?w0 = "emit (ConsoleLog (''Loading MFE: '' @ name)) w"
  obtain rg w1 where g: "getOrCreateContainer env c ?w0 = (rg, w1)"
    by (cases "getOrCreateContainer env c ?w0") auto
  from t g obtain container where rg: "rg = Inr (Some container)"
    by (auto simp add: loadMFE_try_def split: sum.splits option.splits)
  obtain ru l2 w2 where u: "unload_existing name (l, w1) = (ru, l2, w2)"
    by (cases "unload_existing name (l, w1)") auto
  have stage: "mount_stage env name container opts (l2, w2) = (Inr md, l', w')"
    using loadMFE_try_resolved [of env c name w container w1 opts l] g t u rg by simp
  obtain ri l3 w3 where i: "importRemoteModule env name (l2, w2) = (ri, l3, w3)"
    by (cases "importRemoteModule env name (l2, w2)") auto
  from stage i obtain rm where ri: "ri = Inr rm"
    by (auto simp add: mount_stage_def split: sum.splits prod.splits)
  from i ri have it: "importRemoteModule_try env name (l2, w2) = (Inr rm, l3, w3)"
    by (auto simp add: importRemoteModule_def Let_def split: sum.splits prod.splits)
  from stage i ri have "federationInitialized l' = federationInitialized l3"
    and "loadRemoteModule l' = loadRemoteModule l3"
    by (auto simp add: mount_stage_def Let_def split: sum.splits prod.splits)
  with importRemoteModule_try_success [OF it] show ?thesis
    by simp
qed

text \<open>The mount stage once the import has returned.\<close>

lemma mount_stage_imported:
  assumes i: "importRemoteModule env name s2 = (ri, l3, w3)"
  shows "prefix (trace w3) (trace (snd (snd (mount_stage env name container opts s2))))"
    and "\<And>e. ri = Inl e \<Longrightarrow> mount_stage env name container opts s2 = (Inl e, l3, w3)"
    and "\<And>rm e. ri = Inr rm \<Longrightarrow> fst (bootstrapMFE rm container opts w3) = Inl e \<Longrightarrow>
           mount_stage env name container opts s2 = (Inl e, l3, snd (bootstrapMFE rm container opts w3))"
    and "\<And>rm inst. ri = Inr rm \<Longrightarrow> fst (bootstrapMFE rm container opts w3) = Inr inst \<Longrightarrow>
           mount_stage env name container opts s2
             = (Inr \<lparr>md_name = name, md_container = container, md_instance = inst,
                     md_loadedAt = clock (snd (bootstrapMFE rm container opts w3)), md_options = opts\<rparr>,
                l3\<lparr>loadedMFEs := (loadedMFEs l3)(name \<mapsto>
                       \<lparr>md_name = name, md_container = container, md_instance = inst,
                        md_loadedAt = clock (snd (bootstrapMFE rm container opts w3)),
                        md_options = opts\<rparr>),
                   currentMFE := Some name\<rparr>,
                emit (ConsoleLog (''MFE '' @ quoted name @ '' loaded successfully''))
                  (snd (bootstrapMFE rm container opts w3)))"
proof -
  show "prefix (trace w3) (trace (snd (snd (mount_stage env name container opts s2))))"
  proof (cases ri)
    case (Inl e)
    with i show ?thesis by (simp add: mount_stage_def)
  next
    case (Inr rm)
    obtain rb w4 where b: "bootstrapMFE rm container opts w3 = (rb, w4)"
      by (cases "bootstrapMFE rm container opts w3") auto
    from bootstrapMFE_prefix [OF b, of "trace w3"] have "prefix (trace w3) (trace w4)"
      by simp
    with i Inr b show ?thesis
      by (cases rb) (simp_all add: mount_stage_def Let_def prefix_emit)
  qed
  show "\<And>e. ri = Inl e \<Longrightarrow> mount_stage env name container opts s2 = (Inl e, l3, w3)"
    using i by (simp add: mount_stage_def)
  show "mount_stage env name container opts s2 = (Inl e, l3, snd (bootstrapMFE rm container opts w3))"
    if "ri = Inr rm" and "fst (bootstrapMFE rm container opts w3) = Inl e" for rm e
    using i that by (cases "bootstrapMFE rm container opts w3") (simp add: mount_stage_def)
  show "mount_stage env name container opts s2
             = (Inr \<lparr>md_name = name, md_container = container, md_instance = inst,
                     md_loadedAt = clock (snd (bootstrapMFE rm container opts w3)), md_options = opts\<rparr>,
                l3\<lparr>loadedMFEs := (loadedMFEs l3)(name \<mapsto>
                       \<lparr>md_name = name, md_container = container, md_instance = inst,
                        md_loadedAt = clock (snd (bootstrapMFE rm container opts w3)),
                        md_options = opts\<rparr>),
                   currentMFE := Some name\<rparr>,
                emit (ConsoleLog (''MFE '' @ quoted name @ '' loaded successfully''))
                  (snd (bootstrapMFE rm container opts w3)))"
    if "ri = Inr rm" and "fst (bootstrapMFE rm container opts w3) = Inr inst" for rm inst
    using i that by (cases "bootstrapMFE rm container opts w3") (simp add: mount_stage_def Let_def)
qed

text \<open>What a successful load leaves behind.\<close>

lemma first_load_tracked:
  assumes first: "loadMFE env name c opts s0 = (Inr md1, l1, w1)"
  shows "loadedMFEs l1 name = Some md1" and "has_unmount (md_instance md1)"
    and "\<exists>f. loadRemoteModule l1 = Some f"
    and "\<exists>container wc. getOrCreateContainer env c w = (Inr (Some container), wc)"
proof -
  obtain l0 w0 where s0: "s0 = (l0, w0)"
    by (cases s0) auto
  from first have tried1: "loadMFE_try env name c opts (l0, w0) = (Inr md1, l1, w1)"
    by (simp add: loadMFE_success_iff s0)
  from loadMFE_try_frame(2) [OF tried1, of md1]
  show "loadedMFEs l1 name = Some md1" and "has_unmount (md_instance md1)"
    by simp_all
  from loadMFE_try_frame(2) [OF tried1, of md1] have "resolvable env c"
    by simp
  with getOrCreateContainer_resolvable [of env c w]
  obtain container where "fst (getOrCreateContainer env c w) = Inr (Some container)"
    by auto
  then have "getOrCreateContainer env c w = (Inr (Some container), snd (getOrCreateContainer env c w))"
    by (simp add: prod_eq_iff)
  then show "\<exists>container wc. getOrCreateContainer env c w = (Inr (Some container), wc)"
    by blast
  from loadMFE_success_initialized [OF first [unfolded s0]]
  show "\<exists>f. loadRemoteModule l1 = Some f"
    by simp
qed

text \<open>The stages of a second load of a name, in terms of what the stored teardown, the
  library and the mount function do.\<close>

lemma reload_stages:
  fixes env :: "'x env" and f :: "'x loadfn" and s0 :: "'x MFELoader \<times> 'x world"
  assumes first: "loadMFE env name c opts s0 = (Inr md1, l1, w1)"
    and resolve: "getOrCreateContainer env c w1 = (Inr (Some container), wc)"
    and unmount: "md_instance md1 = Object (Function t) dm"
    and torn: "teardown_result t (document wc, ext wc) = (rt, dt, xt)"
    and lib: "loadRemoteModule l1 = Some f"
    and imported: "f name ''./bootstrap''
                     (if rt = Inr () \<and> parentNode (nodes dt (md_container md1))
                      then set_innerHTML (md_container md1) [] dt else dt, xt) = (ri, di, xi)"
  shows "prefix (calls_of (trace w1) @ [CallUnmount name, CallLoadRemoteModule name ''./bootstrap''])
         (calls_of (trace (snd (snd (loadMFE env name c opts (l1, w1))))))
     \<and> (\<forall>(m :: 'x remoteModule) mountFn result dn xn.
          ri = Inr (Some m)
          \<and> js_or (js_or (mod_mount m) (mod_bootstrap m)) (mod_default_mount m) = Function mountFn
          \<and> mountFn container opts (di, xi) = (Inr result, dn, xn) \<longrightarrow>
          fst (loadMFE env name c opts (l1, w1))
            = Inr \<lparr>md_name = name, md_container = container,
                   md_instance = (if has_unmount result then result
                                  else Object (Function (ClearContainer container)) Missing),
                   md_loadedAt = clock w1, md_options = opts\<rparr>
          \<and> loadedMFEs (fst (snd (loadMFE env name c opts (l1, w1))))
            = (loadedMFEs l1)(name \<mapsto>
                 \<lparr>md_name = name, md_container = container,
                  md_instance = (if has_unmount result then result
                                 else Object (Function (ClearContainer container)) Missing),
                  md_loadedAt = clock w1, md_options = opts\<rparr>)
          \<and> getCurrentMFE (fst (snd (loadMFE env name c opts (l1, w1)))) = Some name
          \<and> document (snd (snd (loadMFE env name c opts (l1, w1)))) = dn
          \<and> ext (snd (snd (loadMFE env name c opts (l1, w1)))) = xn
          \<and> calls_of (trace (snd (snd (loadMFE env name c opts (l1, w1)))))
            = calls_of (trace w1)
              @ [CallUnmount name, CallLoadRemoteModule name ''./bootstrap'', CallMount container])
     \<and> (\<forall>(m :: 'x remoteModule) mountFn e dn xn.
          ri = Inr (Some m)
          \<and> js_or (js_or (mod_mount m) (mod_bootstrap m)) (mod_default_mount m) = Function mountFn
          \<and> mountFn container opts (di, xi) = (Inl e, dn, xn) \<longrightarrow>
          fst (loadMFE env name c opts (l1, w1)) = Inl (rejection name e))
     \<and> (\<forall>e. ri = Inl e \<longrightarrow> (\<exists>cause. fst (loadMFE env name c opts (l1, w1)) = Inl cause))
     \<and> (\<forall>e msg. ri = Inl e \<and> message_text e = Inr msg \<longrightarrow>
          fst (loadMFE env name c opts (l1, w1))
            = Inl (new_Error (''MFE load failed: '' @ name @ '' - Failed to import remote module ''
                              @ quoted name @ '': '' @ msg))
          \<and> calls_of (trace (snd (snd (loadMFE env name c opts (l1, w1)))))
            = calls_of (trace w1) @ [CallUnmount name, CallLoadRemoteModule name ''./bootstrap''])
     \<and> (\<forall>cause. fst (loadMFE env name c opts (l1, w1)) = Inl cause \<longrightarrow>
          loadedMFEs (fst (snd (loadMFE env name c opts (l1, w1)))) = (loadedMFEs l1)(name := None))"
proof -
  obtain l0 w0 where s0: "s0 = (l0, w0)"
    by (cases s0) auto
  from first have tried1: "loadMFE_try env name c opts (l0, w0) = (Inr md1, l1, w1)"
    by (simp add: loadMFE_success_iff s0)
  from loadMFE_try_frame(2) [OF tried1, of md1]
  have entry: "loadedMFEs l1 name = Some md1" and res: "resolvable env c"
    by simp_all
  from loadMFE_success_initialized [OF first [unfolded s0]] have init: "federationInitialized l1"
    by simp
  define ev where "ev = ConsoleLog (''Loading MFE: '' @ name)"
  have g: "getOrCreateContainer env c (emit ev w1) = (Inr (Some container), emit ev wc)"
    by (simp add: getOrCreateContainer_emit resolve)
  note keep = getOrCreateContainer_keeps [OF resolve]
  define wu where "wu = emit (ConsoleWarn (''MFE '' @ quoted name @
                                 '' is already loaded. Unloading first.'')) (emit ev wc)"
  define s2 where "s2 = snd (unloadMFE name (l1, wu))"
  have un: "snd (unload_existing name (l1, emit ev wc)) = s2"
    using entry
    by (cases "unloadMFE name (l1, wu)")
       (auto simp add: unload_existing_def s2_def wu_def split: sum.splits)
  have torn': "teardown_result t (document wu, ext wu) = (rt, dt, xt)"
    using torn by (simp add: wu_def)
  note u = unloadMFE_with_unmount [OF entry unmount torn', folded s2_def]
  have wu: "clock wu = clock w1" "calls_of (trace wu) = calls_of (trace w1)"
    by (simp_all add: wu_def ev_def keep)
  have stage: "loadMFE_try env name c opts (l1, w1) = mount_stage env name container opts s2"
    using loadMFE_try_resolved [OF g [unfolded ev_def], of opts l1] un by (simp add: ev_def)
  obtain r3 l3 w3 where i: "importRemoteModule env name s2 = (r3, l3, w3)"
    by (cases "importRemoteModule env name s2") auto
  have init2: "federationInitialized (fst s2)" and lib2: "loadRemoteModule (fst s2) = Some f"
    using u(6,7) init lib by simp_all
  have imported2: "f name ''./bootstrap'' (document (snd s2), ext (snd s2)) = (ri, di, xi)"
    using imported u(1,2) by simp
  note im0 = importRemoteModule_initialized [OF init2 lib2 imported2, where env = env]
  have im: "l3 = fst s2" "document w3 = di" "ext w3 = xi" "clock w3 = clock (snd s2)"
    "calls_of (trace w3) = calls_of (trace (snd s2)) @ [CallLoadRemoteModule name ''./bootstrap'']"
    using im0(1-5) i by simp_all
  have im6: "r3 = Inr m" if "ri = Inr m" for m
    using im0(6) [OF that] i by simp
  have im7: "\<exists>e'. r3 = Inl e'" if "ri = Inl e" for e
    using im0(7) [OF that] i by simp
  have l3: "loadedMFEs l3 = (loadedMFEs l1)(name := None)"
    using im(1) u(5) by simp
  have calls3: "calls_of (trace w3)
                  = calls_of (trace w1) @ [CallUnmount name, CallLoadRemoteModule name ''./bootstrap'']"
    using im(5) u(4) wu by simp
  note ms = mount_stage_imported [OF i, where container = container and opts = opts]
  obtain r0 lt wt where staged: "mount_stage env name container opts s2 = (r0, lt, wt)"
    by (cases "mount_stage env name container opts s2") auto
  have tried: "loadMFE_try env name c opts (l1, w1) = (r0, lt, wt)"
    using stage staged by simp
  note fr = loadMFE_frame [OF tried]
  have "prefix (trace w3) (trace wt)"
    using ms(1) staged by simp
  from fr(2) [OF this]
  have "prefix (calls_of (trace w3)) (calls_of (trace (snd (snd (loadMFE env name c opts (l1, w1))))))"
    by (rule prefix_calls_of)
  then have called: "prefix (calls_of (trace w1) @ [CallUnmount name, CallLoadRemoteModule name ''./bootstrap''])
         (calls_of (trace (snd (snd (loadMFE env name c opts (l1, w1))))))"
    by (simp add: calls3)
  have mounted: "fst (loadMFE env name c opts (l1, w1))
            = Inr \<lparr>md_name = name, md_container = container,
                   md_instance = (if has_unmount result then result
                                  else Object (Function (ClearContainer container)) Missing),
                   md_loadedAt = clock w1, md_options = opts\<rparr>
          \<and> loadedMFEs (fst (snd (loadMFE env name c opts (l1, w1))))
            = (loadedMFEs l1)(name \<mapsto>
                 \<lparr>md_name = name, md_container = container,
                  md_instance = (if has_unmount result then result
                                 else Object (Function (ClearContainer container)) Missing),
                  md_loadedAt = clock w1, md_options = opts\<rparr>)
          \<and> getCurrentMFE (fst (snd (loadMFE env name c opts (l1, w1)))) = Some name
          \<and> document (snd (snd (loadMFE env name c opts (l1, w1)))) = dn
          \<and> ext (snd (snd (loadMFE env name c opts (l1, w1)))) = xn
          \<and> calls_of (trace (snd (snd (loadMFE env name c opts (l1, w1)))))
            = calls_of (trace w1)
              @ [CallUnmount name, CallLoadRemoteModule name ''./bootstrap'', CallMount container]"
    if ri: "ri = Inr (Some m)"
      and fn: "js_or (js_or (mod_mount m) (mod_bootstrap m)) (mod_default_mount m) = Function mountFn"
      and mo: "mountFn container opts (di, xi) = (Inr result, dn, xn)"
    for m :: "'x remoteModule" and mountFn result dn xn
  proof -
    have r3: "r3 = Inr (Some m)"
      using im6 [OF ri] .
    have mo3: "mountFn container opts (document w3, ext w3) = (Inr result, dn, xn)"
      using mo im(2,3) by simp
    note b = bootstrapMFE_mounted [OF fn mo3]
    have clock4: "clock (snd (bootstrapMFE (Some m) container opts w3)) = clock w1"
      using b(4) im(4) u(3) wu by simp
    from ms(4) [OF r3 b(1)] stage
    have t: "loadMFE_try env name c opts (l1, w1)
       = (Inr \<lparr>md_name = name, md_container = container,
                   md_instance = (if has_unmount result then result
                                  else Object (Function (ClearContainer container)) Missing),
                   md_loadedAt = clock w1, md_options = opts\<rparr>,
          l3\<lparr>loadedMFEs := (loadedMFEs l3)(name \<mapsto>
                 \<lparr>md_name = name, md_container = container,
                  md_instance = (if has_unmount result then result
                                 else Object (Function (ClearContainer container)) Missing),
                  md_loadedAt = clock w1, md_options = opts\<rparr>),
             currentMFE := Some name\<rparr>,
          emit (ConsoleLog (''MFE '' @ quoted name @ '' loaded successfully''))
            (snd (bootstrapMFE (Some m) container opts w3)))"
      by (simp add: clock4)
    have "loadMFE env name c opts (l1, w1) = loadMFE_try env name c opts (l1, w1)"
      unfolding t by (simp add: loadMFE_success_iff t)
    then show ?thesis
      unfolding t using b(2,3,5) calls3 l3 by (simp add: getCurrentMFE_def)
  qed
  have mount_failed: "fst (loadMFE env name c opts (l1, w1)) = Inl (rejection name e)"
    if ri: "ri = Inr (Some m)"
      and fn: "js_or (js_or (mod_mount m) (mod_bootstrap m)) (mod_default_mount m) = Function mountFn"
      and mo: "mountFn container opts (di, xi) = (Inl e, dn, xn)"
    for m :: "'x remoteModule" and mountFn e dn xn
  proof -
    have r3: "r3 = Inr (Some m)"
      using im6 [OF ri] .
    have mo3: "mountFn container opts (document w3, ext w3) = (Inl e, dn, xn)"
      using mo im(2,3) by simp
    from ms(3) [OF r3 bootstrapMFE_mount_fails [OF fn mo3]] stage
    have t: "loadMFE_try env name c opts (l1, w1)
               = (Inl e, l3, snd (bootstrapMFE (Some m) container opts w3))"
      by simp
    from loadMFE_failure [OF t displayError_resolvable(1) [OF res]] show ?thesis
      by simp
  qed
  have import_failed: "\<exists>cause. fst (loadMFE env name c opts (l1, w1)) = Inl cause" if "ri = Inl e" for e
  proof -
    from im7 [OF that] obtain e' where "r3 = Inl e'"
      by auto
    from ms(2) [OF this] staged have "r0 = Inl e'"
      by simp
    with fr(3) show ?thesis
      by (cases "fst (loadMFE env name c opts (l1, w1))") auto
  qed
  have import_message: "fst (loadMFE env name c opts (l1, w1))
            = Inl (new_Error (''MFE load failed: '' @ name @ '' - Failed to import remote module ''
                              @ quoted name @ '': '' @ msg))
          \<and> calls_of (trace (snd (snd (loadMFE env name c opts (l1, w1)))))
            = calls_of (trace w1) @ [CallUnmount name, CallLoadRemoteModule name ''./bootstrap'']"
    if "ri = Inl e" and "message_text e = Inr msg" for e msg
  proof -
    define cause where
      "cause = new_Error (''Failed to import remote module '' @ quoted name @ '': '' @ msg)"
    have "r3 = Inl cause"
      using im0(8) [OF that] i by (simp add: cause_def)
    from ms(2) [OF this] stage
    have t: "loadMFE_try env name c opts (l1, w1) = (Inl cause, l3, w3)"
      by simp
    have m: "message_text cause
               = Inr (''Failed to import remote module '' @ quoted name @ '': '' @ msg)"
      by (simp add: cause_def message_text_def new_Error_def)
    from loadMFE_failure [OF t displayError_resolvable(1) [OF res]]
      displayError_resolvable(2) [OF res] calls3
    show ?thesis
      by (simp add: rejection_message(1) [OF m])
  qed
  have failed: "loadedMFEs (fst (snd (loadMFE env name c opts (l1, w1)))) = (loadedMFEs l1)(name := None)"
    if "fst (loadMFE env name c opts (l1, w1)) = Inl cause" for cause
  proof -
    from that fr(3) obtain cause0 where r0: "r0 = Inl cause0"
      by (cases r0) auto
    have stage': "mount_stage env name container opts (fst s2, snd s2) = (r0, lt, wt)"
      using staged by simp
    have "loadedMFEs lt other = ((loadedMFEs l1)(name := None)) other" for other
      using mount_stage_frame(1) [OF stage', of other] mount_stage_frame(2) [OF stage' r0] u(5)
      by (cases "other = name") simp_all
    then show ?thesis
      unfolding fr(1) by (simp add: fun_eq_iff)
  qed
  from called mounted mount_failed import_failed import_message failed show ?thesis
    by blast
qed

text \<open>Unloading an entry that holds the default teardown.\<close>

lemma unloadMFE_default:
  assumes "loadedMFEs l name = Some md"
    and "md_instance md = Object (Function (ClearContainer (md_container md))) dm"
  shows "fst (unloadMFE name (l, w)) = Inr True"
    and "loadedMFEs (fst (snd (unloadMFE name (l, w)))) = (loadedMFEs l)(name := None)"
    and "document (snd (snd (unloadMFE name (l, w)))) = set_innerHTML (md_container md) [] (document w)"
    and "ext (snd (snd (unloadMFE name (l, w)))) = ext w"
    and "trace (snd (snd (unloadMFE name (l, w))))
           = trace w @ [ConsoleLog (''Unloading MFE: '' @ name), Call (CallUnmount name),
                        ConsoleWarn ''No unmount method available, clearing container manually'',
                        ConsoleLog (''MFE '' @ quoted name @ '' unloaded successfully'')]"
  using assms
  by (simp_all add: unloadMFE_def cleanup_instance_def invoke_teardown_def Let_def set_innerHTML_def
      emit_def)


text \<open>The fixtures, evaluated.\<close>

lemma mfe1_loaded_state:
  "loadedMFEs (fst mfe1_loaded) = [''mfe1'' \<mapsto> mfe1_metadata]"
  "loadRemoteModule (fst mfe1_loaded) = Some demo_loadRemoteModule"
  "ext (snd mfe1_loaded) = 1"
  "clock (snd mfe1_loaded) = 0"
  "parentNode (nodes (document (snd mfe1_loaded)) 0)"
  by (simp_all add: mfe1_loaded_def loader_defs demo_defs mfe1_metadata_def Let_def
      appendChild_def set_innerHTML_def)

lemma flaky_loaded_eval:
  "loadMFE demo_env ''flaky'' (HTMLElement 0) [] (demo_loader, demo_world)
     = (Inr (mfe1_metadata\<lparr>md_name := ''flaky''\<rparr>), flaky_loaded)"
  "loadedMFEs (fst flaky_loaded) = [''flaky'' \<mapsto> mfe1_metadata\<lparr>md_name := ''flaky''\<rparr>]"
  "loadRemoteModule (fst flaky_loaded) = Some demo_loadRemoteModule"
  "ext (snd flaky_loaded) = 1"
  "calls_of (trace (snd flaky_loaded))
     = [CallInitFederation, CallLoadRemoteModule ''flaky'' ''./bootstrap'', CallMount 0]"
proof -
  have "fst (loadMFE demo_env ''flaky'' (HTMLElement 0) [] (demo_loader, demo_world))
          = Inr (mfe1_metadata\<lparr>md_name := ''flaky''\<rparr>)"
    by (simp add: loader_defs demo_defs mfe1_metadata_def Let_def)
  then show "loadMFE demo_env ''flaky'' (HTMLElement 0) [] (demo_loader, demo_world)
     = (Inr (mfe1_metadata\<lparr>md_name := ''flaky''\<rparr>), flaky_loaded)"
    by (simp add: flaky_loaded_def prod_eq_iff)
  show "loadedMFEs (fst flaky_loaded) = [''flaky'' \<mapsto> mfe1_metadata\<lparr>md_name := ''flaky''\<rparr>]"
    "loadRemoteModule (fst flaky_loaded) = Some demo_loadRemoteModule"
    "ext (snd flaky_loaded) = 1"
    "calls_of (trace (snd flaky_loaded))
       = [CallInitFederation, CallLoadRemoteModule ''flaky'' ''./bootstrap'', CallMount 0]"
    by (simp_all add: flaky_loaded_def loader_defs demo_defs mfe1_metadata_def Let_def)
qed

lemma bare_loaded_state:
  "fst (loadMFE demo_env ''bare'' (HTMLElement 0) [] (demo_loader, demo_world)) = Inr bare_metadata"
  "snd (loadMFE demo_env ''bare'' (HTMLElement 0) [] (demo_loader, demo_world)) = bare_loaded"
  "unload_existing ''bare'' (demo_loader, emit (ConsoleLog (''Loading MFE: '' @ ''bare'')) demo_world)
     = (Inr (), demo_loader, emit (ConsoleLog (''Loading MFE: '' @ ''bare'')) demo_world)"
  "fst (importRemoteModule demo_env ''bare''
          (demo_loader, emit (ConsoleLog (''Loading MFE: '' @ ''bare'')) demo_world))
     = Inr (Some (module_of bare_mount))"
  "loadedMFEs (fst (snd (importRemoteModule demo_env ''bare''
          (demo_loader, emit (ConsoleLog (''Loading MFE: '' @ ''bare'')) demo_world)))) = Map.empty"
  "document (snd (snd (importRemoteModule demo_env ''bare''
          (demo_loader, emit (ConsoleLog (''Loading MFE: '' @ ''bare'')) demo_world)))) = demo_dom"
  "ext (snd (snd (importRemoteModule demo_env ''bare''
          (demo_loader, emit (ConsoleLog (''Loading MFE: '' @ ''bare'')) demo_world)))) = 0"
  "clock (snd (snd (importRemoteModule demo_env ''bare''
          (demo_loader, emit (ConsoleLog (''Loading MFE: '' @ ''bare'')) demo_world)))) = 0"
  "calls_of (trace (snd (snd (importRemoteModule demo_env ''bare''
          (demo_loader, emit (ConsoleLog (''Loading MFE: '' @ ''bare'')) demo_world)))))
     = [CallInitFederation, CallLoadRemoteModule ''bare'' ''./bootstrap'']"
  by (simp_all add: bare_loaded_def bare_metadata_def loader_defs demo_defs Let_def)



subsection \<open>Claims about loading\<close>

text \<open>
  C1, as the code has it. Let \<^verbatim>\<open>loadMFE(name, c)\<close> have succeeded. Then the name is in the
  map, the stored instance has a callable \<^verbatim>\<open>unmount\<close>, the federation library is at hand and
  \<open>c\<close> resolves to a container again. A second \<^verbatim>\<open>loadMFE(name, c)\<close> first calls that
  \<^verbatim>\<open>unmount\<close> (and \<^verbatim>\<open>unloadMFE\<close> removes the entry and, when the teardown returned, empties the
  old container), then imports the remote on the page that this left, then calls the mount
  function of the module on the container: these are the callbacks of the second call, in
  this order. If the mount function resolves, the promise is fulfilled with the metadata of
  the new instance, the map is the one before with this metadata under the name (one entry
  for the name, that of the new instance), the name is the current MFE, and the page and the
  state of the remotes are those that the mount function left. If the mount function or the
  import rejects, the promise rejects; and whenever the second call rejects, the map is the
  one before without the name: there is then no entry for the name.
\<close>

theorem reload_tears_down_then_mounts:
  fixes env :: "'x env" and s0 :: "'x MFELoader \<times> 'x world"
  assumes first: "loadMFE env name c opts s0 = (Inr md1, l1, w1)"
  shows "loadedMFEs l1 name = Some md1
     \<and> has_unmount (md_instance md1)
     \<and> (\<exists>f. loadRemoteModule l1 = Some f)
     \<and> (\<exists>container wc. getOrCreateContainer env c w1 = (Inr (Some container), wc))
     \<and> (\<forall>container wc t dm rt dt xt (f :: 'x loadfn) ri di xi.
          getOrCreateContainer env c w1 = (Inr (Some container), wc)
          \<and> md_instance md1 = Object (Function t) dm
          \<and> teardown_result t (document wc, ext wc) = (rt, dt, xt)
          \<and> loadRemoteModule l1 = Some f
          \<and> f name ''./bootstrap''
               (if rt = Inr () \<and> parentNode (nodes dt (md_container md1))
                then set_innerHTML (md_container md1) [] dt else dt, xt) = (ri, di, xi)
          \<longrightarrow>
            prefix (calls_of (trace w1) @ [CallUnmount name, CallLoadRemoteModule name ''./bootstrap''])
               (calls_of (trace (snd (snd (loadMFE env name c opts (l1, w1))))))
           \<and> (\<forall>(m :: 'x remoteModule) mountFn result dn xn.
                ri = Inr (Some m)
                \<and> js_or (js_or (mod_mount m) (mod_bootstrap m)) (mod_default_mount m) = Function mountFn
                \<and> mountFn container opts (di, xi) = (Inr result, dn, xn) \<longrightarrow>
                fst (loadMFE env name c opts (l1, w1))
                  = Inr \<lparr>md_name = name, md_container = container,
                         md_instance = (if has_unmount result then result
                                        else Object (Function (ClearContainer container)) Missing),
                         md_loadedAt = clock w1, md_options = opts\<rparr>
                \<and> loadedMFEs (fst (snd (loadMFE env name c opts (l1, w1))))
                  = (loadedMFEs l1)(name \<mapsto>
                       \<lparr>md_name = name, md_container = container,
                        md_instance = (if has_unmount result then result
                                       else Object (Function (ClearContainer container)) Missing),
                        md_loadedAt = clock w1, md_options = opts\<rparr>)
                \<and> getCurrentMFE (fst (snd (loadMFE env name c opts (l1, w1)))) = Some name
                \<and> document (snd (snd (loadMFE env name c opts (l1, w1)))) = dn
                \<and> ext (snd (snd (loadMFE env name c opts (l1, w1)))) = xn
                \<and> calls_of (trace (snd (snd (loadMFE env name c opts (l1, w1)))))
                  = calls_of (trace w1)
                    @ [CallUnmount name, CallLoadRemoteModule name ''./bootstrap'', CallMount container])
           \<and> (\<forall>(m :: 'x remoteModule) mountFn e dn xn.
                ri = Inr (Some m)
                \<and> js_or (js_or (mod_mount m) (mod_bootstrap m)) (mod_default_mount m) = Function mountFn
                \<and> mountFn container opts (di, xi) = (Inl e, dn, xn) \<longrightarrow>
                fst (loadMFE env name c opts (l1, w1)) = Inl (rejection name e))
           \<and> (\<forall>e. ri = Inl e \<longrightarrow> (\<exists>cause. fst (loadMFE env name c opts (l1, w1)) = Inl cause))
           \<and> (\<forall>e msg. ri = Inl e \<and> message_text e = Inr msg \<longrightarrow>
                fst (loadMFE env name c opts (l1, w1))
                  = Inl (new_Error (''MFE load failed: '' @ name @ '' - Failed to import remote module ''
                                    @ quoted name @ '': '' @ msg))
                \<and> calls_of (trace (snd (snd (loadMFE env name c opts (l1, w1)))))
                  = calls_of (trace w1) @ [CallUnmount name, CallLoadRemoteModule name ''./bootstrap''])
           \<and> (\<forall>cause. fst (loadMFE env name c opts (l1, w1)) = Inl cause \<longrightarrow>
                loadedMFEs (fst (snd (loadMFE env name c opts (l1, w1)))) = (loadedMFEs l1)(name := None)))"
proof -
  note tracked = first_load_tracked [OF first]
  have stages: "getOrCreateContainer env c w1 = (Inr (Some container), wc)
          \<and> md_instance md1 = Object (Function t) dm
          \<and> teardown_result t (document wc, ext wc) = (rt, dt, xt)
          \<and> loadRemoteModule l1 = Some f
          \<and> f name ''./bootstrap''
               (if rt = Inr () \<and> parentNode (nodes dt (md_container md1))
                then set_innerHTML (md_container md1) [] dt else dt, xt) = (ri, di, xi)
          \<longrightarrow>
            prefix (calls_of (trace w1) @ [CallUnmount name, CallLoadRemoteModule name ''./bootstrap''])
               (calls_of (trace (snd (snd (loadMFE env name c opts (l1, w1))))))
           \<and> (\<forall>(m :: 'x remoteModule) mountFn result dn xn.
                ri = Inr (Some m)
                \<and> js_or (js_or (mod_mount m) (mod_bootstrap m)) (mod_default_mount m) = Function mountFn
                \<and> mountFn container opts (di, xi) = (Inr result, dn, xn) \<longrightarrow>
                fst (loadMFE env name c opts (l1, w1))
                  = Inr \<lparr>md_name = name, md_container = container,
                         md_instance = (if has_unmount result then result
                                        else Object (Function (ClearContainer container)) Missing),
                         md_loadedAt = clock w1, md_options = opts\<rparr>
                \<and> loadedMFEs (fst (snd (loadMFE env name c opts (l1, w1))))
                  = (loadedMFEs l1)(name \<mapsto>
                       \<lparr>md_name = name, md_container = container,
                        md_instance = (if has_unmount result then result
                                       else Object (Function (ClearContainer container)) Missing),
                        md_loadedAt = clock w1, md_options = opts\<rparr>)
                \<and> getCurrentMFE (fst (snd (loadMFE env name c opts (l1, w1)))) = Some name
                \<and> document (snd (snd (loadMFE env name c opts (l1, w1)))) = dn
                \<and> ext (snd (snd (loadMFE env name c opts (l1, w1)))) = xn
                \<and> calls_of (trace (snd (snd (loadMFE env name c opts (l1, w1)))))
                  = calls_of (trace w1)
                    @ [CallUnmount name, CallLoadRemoteModule name ''./bootstrap'', CallMount container])
           \<and> (\<forall>(m :: 'x remoteModule) mountFn e dn xn.
                ri = Inr (Some m)
                \<and> js_or (js_or (mod_mount m) (mod_bootstrap m)) (mod_default_mount m) = Function mountFn
                \<and> mountFn container opts (di, xi) = (Inl e, dn, xn) \<longrightarrow>
                fst (loadMFE env name c opts (l1, w1)) = Inl (rejection name e))
           \<and> (\<forall>e. ri = Inl e \<longrightarrow> (\<exists>cause. fst (loadMFE env name c opts (l1, w1)) = Inl cause))
           \<and> (\<forall>e msg. ri = Inl e \<and> message_text e = Inr msg \<longrightarrow>
                fst (loadMFE env name c opts (l1, w1))
                  = Inl (new_Error (''MFE load failed: '' @ name @ '' - Failed to import remote module ''
                                    @ quoted name @ '': '' @ msg))
                \<and> calls_of (trace (snd (snd (loadMFE env name c opts (l1, w1)))))
                  = calls_of (trace w1) @ [CallUnmount name, CallLoadRemoteModule name ''./bootstrap''])
           \<and> (\<forall>cause. fst (loadMFE env name c opts (l1, w1)) = Inl cause \<longrightarrow>
                loadedMFEs (fst (snd (loadMFE env name c opts (l1, w1)))) = (loadedMFEs l1)(name := None))"
    for container wc t dm rt dt xt and f :: "'x loadfn" and ri di xi
    using reload_stages [OF first, of container wc t dm rt dt xt f ri di xi] by (intro impI) blast
  show ?thesis
    using tracked(1,2,3) tracked(4) [of w1] stages
    by (intro conjI allI) assumption+
qed

theorem reload_tears_down_then_mounts_witness:
  "loadMFE demo_env ''mfe1'' (HTMLElement 0) [] (demo_loader, demo_world) = (Inr mfe1_metadata, mfe1_loaded)
   \<and> fst (loadMFE demo_env ''mfe1'' (HTMLElement 0) [] mfe1_loaded) = Inr mfe1_metadata
   \<and> loadedMFEs (fst (snd (loadMFE demo_env ''mfe1'' (HTMLElement 0) [] mfe1_loaded)))
       = [''mfe1'' \<mapsto> mfe1_metadata]
   \<and> getCurrentMFE (fst (snd (loadMFE demo_env ''mfe1'' (HTMLElement 0) [] mfe1_loaded))) = Some ''mfe1''
   \<and> calls_of (trace (snd (snd (loadMFE demo_env ''mfe1'' (HTMLElement 0) [] mfe1_loaded))))
       = [CallInitFederation, CallLoadRemoteModule ''mfe1'' ''./bootstrap'', CallMount 0,
          CallUnmount ''mfe1'', CallLoadRemoteModule ''mfe1'' ''./bootstrap'', CallMount 0]
   \<and> ext (snd (snd (loadMFE demo_env ''mfe1'' (HTMLElement 0) [] mfe1_loaded))) = 12
   \<and> innerHTML (nodes (document (snd (snd (loadMFE demo_env ''mfe1'' (HTMLElement 0) [] mfe1_loaded)))) 0)
       = [app_root]"
proof -
  define d1 where "d1 = set_innerHTML 0 [] (document (snd mfe1_loaded))"
  have first: "loadMFE demo_env ''mfe1'' (HTMLElement 0) [] (demo_loader, demo_world)
                 = (Inr mfe1_metadata, fst mfe1_loaded, snd mfe1_loaded)"
    using mfe1_first_load by simp
  have resolve: "getOrCreateContainer demo_env (HTMLElement 0) (snd mfe1_loaded)
                   = (Inr (Some 0), snd mfe1_loaded)"
    by (simp add: getOrCreateContainer_def)
  have unmount: "md_instance mfe1_metadata = Object (Function (RemoteFn (demo_unmount 0))) Missing"
    by (simp add: mfe1_metadata_def)
  have torn: "teardown_result (RemoteFn (demo_unmount 0))
                (document (snd mfe1_loaded), ext (snd mfe1_loaded)) = (Inr (), d1, 11)"
    by (simp add: teardown_result_def demo_unmount_def mfe1_loaded_state d1_def)
  have attached: "parentNode (nodes d1 0)"
    using mfe1_loaded_state(5) by (simp add: d1_def set_innerHTML_def)
  have imported: "demo_loadRemoteModule ''mfe1'' ''./bootstrap''
                    (if Inr () = (Inr () :: thrown + unit)
                        \<and> parentNode (nodes d1 (md_container mfe1_metadata))
                     then set_innerHTML (md_container mfe1_metadata) [] d1 else d1, 11)
                  = (Inr (Some (module_of demo_mount)), d1, 11)"
    using attached by (simp add: demo_loadRemoteModule_def mfe1_metadata_def d1_def set_innerHTML_def)
  have fn: "js_or (js_or (mod_mount (module_of demo_mount)) (mod_bootstrap (module_of demo_mount)))
              (mod_default_mount (module_of demo_mount)) = Function demo_mount"
    by (simp add: module_of_def js_or_def)
  have mounted: "demo_mount 0 [] (d1, 11)
                   = (Inr (Object (Function (RemoteFn (demo_unmount 0))) Missing),
                      appendChild 0 app_root d1, 12)"
    by (simp add: demo_mount_def)
  have um: "has_unmount (Object (Function (RemoteFn (demo_unmount 0))) Missing)"
    by (simp add: has_unmount_def)
  note reload = reload_tears_down_then_mounts
    [OF first, THEN conjunct2, THEN conjunct2, THEN conjunct2, THEN conjunct2, rule_format,
     OF conjI [OF resolve conjI [OF unmount conjI [OF torn conjI [OF mfe1_loaded_state(2) imported]]]]]
  from reload fn mounted
  have "fst (loadMFE demo_env ''mfe1'' (HTMLElement 0) [] (fst mfe1_loaded, snd mfe1_loaded))
            = Inr \<lparr>md_name = ''mfe1'', md_container = 0,
                   md_instance = (if has_unmount (Object (Function (RemoteFn (demo_unmount 0))) Missing)
                                  then Object (Function (RemoteFn (demo_unmount 0))) Missing
                                  else Object (Function (ClearContainer 0)) Missing),
                   md_loadedAt = clock (snd mfe1_loaded), md_options = []\<rparr>
          \<and> loadedMFEs (fst (snd (loadMFE demo_env ''mfe1'' (HTMLElement 0) [] (fst mfe1_loaded, snd mfe1_loaded))))
            = (loadedMFEs (fst mfe1_loaded))(''mfe1'' \<mapsto>
                 \<lparr>md_name = ''mfe1'', md_container = 0,
                  md_instance = (if has_unmount (Object (Function (RemoteFn (demo_unmount 0))) Missing)
                                 then Object (Function (RemoteFn (demo_unmount 0))) Missing
                                 else Object (Function (ClearContainer 0)) Missing),
                  md_loadedAt = clock (snd mfe1_loaded), md_options = []\<rparr>)
          \<and> getCurrentMFE (fst (snd (loadMFE demo_env ''mfe1'' (HTMLElement 0) [] (fst mfe1_loaded, snd mfe1_loaded)))) = Some ''mfe1''
          \<and> document (snd (snd (loadMFE demo_env ''mfe1'' (HTMLElement 0) [] (fst mfe1_loaded, snd mfe1_loaded))))
              = appendChild 0 app_root d1
          \<and> ext (snd (snd (loadMFE demo_env ''mfe1'' (HTMLElement 0) [] (fst mfe1_loaded, snd mfe1_loaded)))) = 12
          \<and> calls_of (trace (snd (snd (loadMFE demo_env ''mfe1'' (HTMLElement 0) [] (fst mfe1_loaded, snd mfe1_loaded)))))
            = calls_of (trace (snd mfe1_loaded))
              @ [CallUnmount ''mfe1'', CallLoadRemoteModule ''mfe1'' ''./bootstrap'', CallMount 0]"
    by blast
  then show ?thesis
    using mfe1_first_load mfe1_loaded_state mfe1_loaded_eval(2) um
    by (simp add: mfe1_metadata_def d1_def appendChild_def set_innerHTML_def)
qed

text \<open>
  C1 as the claim states it fails, since it promises an entry for the name after every
  second load: the remote \<^verbatim>\<open>flaky\<close> can be imported only once. Its first load succeeds; the
  second load tears the instance down, its import rejects, and the map is empty.
\<close>

theorem reload_failure_leaves_no_entry:
  "loadMFE demo_env ''flaky'' (HTMLElement 0) [] (demo_loader, demo_world)
     = (Inr (mfe1_metadata\<lparr>md_name := ''flaky''\<rparr>), flaky_loaded)
   \<and> loadedMFEs (fst flaky_loaded) = [''flaky'' \<mapsto> mfe1_metadata\<lparr>md_name := ''flaky''\<rparr>]
   \<and> fst (loadMFE demo_env ''flaky'' (HTMLElement 0) [] flaky_loaded)
       = Inl (new_Error (''MFE load failed: flaky - Failed to import remote module '' @ quoted ''flaky''
                         @ '': Remote not found: flaky''))
   \<and> loadedMFEs (fst (snd (loadMFE demo_env ''flaky'' (HTMLElement 0) [] flaky_loaded))) = Map.empty
   \<and> calls_of (trace (snd (snd (loadMFE demo_env ''flaky'' (HTMLElement 0) [] flaky_loaded))))
       = [CallInitFederation, CallLoadRemoteModule ''flaky'' ''./bootstrap'', CallMount 0,
          CallUnmount ''flaky'', CallLoadRemoteModule ''flaky'' ''./bootstrap'']"
proof -
  define d1 where "d1 = set_innerHTML 0 [] (document (snd flaky_loaded))"
  have first: "loadMFE demo_env ''flaky'' (HTMLElement 0) [] (demo_loader, demo_world)
                 = (Inr (mfe1_metadata\<lparr>md_name := ''flaky''\<rparr>), fst flaky_loaded, snd flaky_loaded)"
    using flaky_loaded_eval(1) by simp
  have resolve: "getOrCreateContainer demo_env (HTMLElement 0) (snd flaky_loaded)
                   = (Inr (Some 0), snd flaky_loaded)"
    by (simp add: getOrCreateContainer_def)
  have unmount: "md_instance (mfe1_metadata\<lparr>md_name := ''flaky''\<rparr>)
                   = Object (Function (RemoteFn (demo_unmount 0))) Missing"
    by (simp add: mfe1_metadata_def)
  have torn: "teardown_result (RemoteFn (demo_unmount 0))
                (document (snd flaky_loaded), ext (snd flaky_loaded)) = (Inr (), d1, 11)"
    by (simp add: teardown_result_def demo_unmount_def flaky_loaded_eval d1_def)
  obtain du where imported: "demo_loadRemoteModule ''flaky'' ''./bootstrap''
                    (if Inr () = (Inr () :: thrown + unit)
                        \<and> parentNode (nodes d1 (md_container (mfe1_metadata\<lparr>md_name := ''flaky''\<rparr>)))
                     then set_innerHTML (md_container (mfe1_metadata\<lparr>md_name := ''flaky''\<rparr>)) [] d1
                     else d1, 11)
                  = (Inl (new_Error ''Remote not found: flaky''), du, 11)"
    by (simp add: demo_loadRemoteModule_def)
  have msg: "message_text (new_Error ''Remote not found: flaky'') = Inr ''Remote not found: flaky''"
    by (simp add: message_text_def new_Error_def)
  note reload = reload_stages [OF first resolve unmount torn flaky_loaded_eval(3) imported]
  from reload msg
  have "fst (loadMFE demo_env ''flaky'' (HTMLElement 0) [] (fst flaky_loaded, snd flaky_loaded))
            = Inl (new_Error (''MFE load failed: '' @ ''flaky'' @ '' - Failed to import remote module ''
                              @ quoted ''flaky'' @ '': '' @ ''Remote not found: flaky''))
          \<and> calls_of (trace (snd (snd (loadMFE demo_env ''flaky'' (HTMLElement 0) [] (fst flaky_loaded, snd flaky_loaded)))))
            = calls_of (trace (snd flaky_loaded))
              @ [CallUnmount ''flaky'', CallLoadRemoteModule ''flaky'' ''./bootstrap'']
          \<and> loadedMFEs (fst (snd (loadMFE demo_env ''flaky'' (HTMLElement 0) [] (fst flaky_loaded, snd flaky_loaded))))
            = (loadedMFEs (fst flaky_loaded))(''flaky'' := None)"
    by blast
  then show ?thesis
    using flaky_loaded_eval by simp
qed




text \<open>
  C6. Let \<^verbatim>\<open>loadMFE(name, c)\<close> resolve \<open>c\<close> to a container and import a module whose mount
  function resolves to a value without a callable \<^verbatim>\<open>unmount\<close>. Then the promise is fulfilled,
  and the metadata that it returns and that the map holds under the name has as instance the
  default teardown for that container; the page and the state of the remotes are as the mount
  function left them, and after the mount the console shows the warning that no valid
  \<^verbatim>\<open>unmount\<close> was returned. A later \<^verbatim>\<open>unloadMFE(name)\<close>, in any state of the page, resolves to
  \<^verbatim>\<open>true\<close>, removes the entry, calls the default teardown, which warns, and leaves the page
  as it was but for the container, which is empty. And every entry in the map after any run
  of \<^verbatim>\<open>loadMFE\<close> and \<^verbatim>\<open>unloadMFE\<close> calls on a fresh loader has a callable \<^verbatim>\<open>unmount\<close>.
\<close>

theorem default_teardown_substituted:
  fixes env :: "'x env" and m :: "'x remoteModule" and l :: "'x MFELoader"
  assumes resolve: "getOrCreateContainer env c w = (Inr (Some container), wc)"
    and imported: "importRemoteModule env name
                     (snd (unload_existing name (l, emit (ConsoleLog (''Loading MFE: '' @ name)) wc)))
                     = (Inr (Some m), l3, w3)"
    and fn: "js_or (js_or (mod_mount m) (mod_bootstrap m)) (mod_default_mount m) = Function mountFn"
    and mounted: "mountFn container opts (document w3, ext w3) = (Inr result, d4, x4)"
    and bare: "\<not> has_unmount result"
  shows "fst (loadMFE env name c opts (l, w))
           = Inr \<lparr>md_name = name, md_container = container,
                  md_instance = Object (Function (ClearContainer container)) Missing,
                  md_loadedAt = clock w3, md_options = opts\<rparr>
     \<and> loadedMFEs (fst (snd (loadMFE env name c opts (l, w))))
           = (loadedMFEs l3)(name \<mapsto>
                \<lparr>md_name = name, md_container = container,
                 md_instance = Object (Function (ClearContainer container)) Missing,
                 md_loadedAt = clock w3, md_options = opts\<rparr>)
     \<and> document (snd (snd (loadMFE env name c opts (l, w)))) = d4
     \<and> ext (snd (snd (loadMFE env name c opts (l, w)))) = x4
     \<and> trace (snd (snd (loadMFE env name c opts (l, w))))
           = trace w3 @ [ConsoleLog ''Calling MFE mount function...'', Call (CallMount container),
                         ConsoleLog ''MFE mounted successfully'',
                         ConsoleWarn ''MFE mount function did not return a valid unmount method'',
                         ConsoleLog (''MFE '' @ quoted name @ '' loaded successfully'')]
     \<and> (\<forall>w2 :: 'x world.
           fst (unloadMFE name (fst (snd (loadMFE env name c opts (l, w))), w2)) = Inr True
         \<and> loadedMFEs (fst (snd (unloadMFE name (fst (snd (loadMFE env name c opts (l, w))), w2))))
             = (loadedMFEs l3)(name := None)
         \<and> document (snd (snd (unloadMFE name (fst (snd (loadMFE env name c opts (l, w))), w2))))
             = set_innerHTML container [] (document w2)
         \<and> ext (snd (snd (unloadMFE name (fst (snd (loadMFE env name c opts (l, w))), w2)))) = ext w2
         \<and> trace (snd (snd (unloadMFE name (fst (snd (loadMFE env name c opts (l, w))), w2))))
             = trace w2 @ [ConsoleLog (''Unloading MFE: '' @ name), Call (CallUnmount name),
                           ConsoleWarn ''No unmount method available, clearing container manually'',
                           ConsoleLog (''MFE '' @ quoted name @ '' unloaded successfully'')])
     \<and> (\<forall>calls (w0 :: 'x world) n md.
           loadedMFEs (fst (run_calls env calls (MFELoader_new, w0))) n = Some md
           \<longrightarrow> has_unmount (md_instance md))"
proof -
  define md where
    "md = \<lparr>md_name = name, md_container = container,
           md_instance = (Object (Function (ClearContainer container)) Missing :: 'x mfeInstance),
           md_loadedAt = clock w3, md_options = opts\<rparr>"
  define ev where "ev = ConsoleLog (''Loading MFE: '' @ name)"
  have g: "getOrCreateContainer env c (emit ev w) = (Inr (Some container), emit ev wc)"
    by (simp add: getOrCreateContainer_emit resolve)
  have stage: "loadMFE_try env name c opts (l, w)
                 = mount_stage env name container opts (snd (unload_existing name (l, emit ev wc)))"
    using loadMFE_try_resolved [OF g [unfolded ev_def], of opts l] by (simp add: ev_def)
  note b = bootstrapMFE_mounted [OF fn mounted]
  have inst: "fst (bootstrapMFE (Some m) container opts w3)
                = Inr (Object (Function (ClearContainer container)) Missing)"
    using b(1) bare by simp
  from mount_stage_imported(4) [OF imported [folded ev_def] refl inst] stage
  have t: "loadMFE_try env name c opts (l, w)
     = (Inr md, l3\<lparr>loadedMFEs := (loadedMFEs l3)(name \<mapsto> md), currentMFE := Some name\<rparr>,
        emit (ConsoleLog (''MFE '' @ quoted name @ '' loaded successfully''))
          (snd (bootstrapMFE (Some m) container opts w3)))"
    by (simp add: md_def b(4))
  have whole: "loadMFE env name c opts (l, w) = loadMFE_try env name c opts (l, w)"
    unfolding t by (simp add: loadMFE_success_iff t)
  have loaded: "fst (loadMFE env name c opts (l, w)) = Inr md
     \<and> loadedMFEs (fst (snd (loadMFE env name c opts (l, w)))) = (loadedMFEs l3)(name \<mapsto> md)
     \<and> document (snd (snd (loadMFE env name c opts (l, w)))) = d4
     \<and> ext (snd (snd (loadMFE env name c opts (l, w)))) = x4
     \<and> trace (snd (snd (loadMFE env name c opts (l, w))))
           = trace w3 @ [ConsoleLog ''Calling MFE mount function...'', Call (CallMount container),
                         ConsoleLog ''MFE mounted successfully'',
                         ConsoleWarn ''MFE mount function did not return a valid unmount method'',
                         ConsoleLog (''MFE '' @ quoted name @ '' loaded successfully'')]"
    unfolding whole t using b(2,3,6) bare by simp
  have entry: "loadedMFEs (fst (snd (loadMFE env name c opts (l, w)))) name = Some md"
    using loaded by simp
  have default: "md_instance md = Object (Function (ClearContainer (md_container md))) Missing"
    by (simp add: md_def)
  have unload: "fst (unloadMFE name (fst (snd (loadMFE env name c opts (l, w))), w2)) = Inr True
         \<and> loadedMFEs (fst (snd (unloadMFE name (fst (snd (loadMFE env name c opts (l, w))), w2))))
             = (loadedMFEs l3)(name := None)
         \<and> document (snd (snd (unloadMFE name (fst (snd (loadMFE env name c opts (l, w))), w2))))
             = set_innerHTML container [] (document w2)
         \<and> ext (snd (snd (unloadMFE name (fst (snd (loadMFE env name c opts (l, w))), w2)))) = ext w2
         \<and> trace (snd (snd (unloadMFE name (fst (snd (loadMFE env name c opts (l, w))), w2))))
             = trace w2 @ [ConsoleLog (''Unloading MFE: '' @ name), Call (CallUnmount name),
                           ConsoleWarn ''No unmount method available, clearing container manually'',
                           ConsoleLog (''MFE '' @ quoted name @ '' unloaded successfully'')]"
    for w2 :: "'x world"
    using unloadMFE_default [OF entry default, of w2] loaded by (simp add: md_def)
  have tracked: "has_unmount (md_instance md')"
    if "loadedMFEs (fst (run_calls env calls (MFELoader_new, w0))) n = Some md'"
    for calls and w0 :: "'x world" and n md'
    using that by (rule run_calls_fresh_tracked)
  from loaded unload tracked show ?thesis
    unfolding md_def by blast
qed

theorem default_teardown_substituted_witness:
  "fst (loadMFE demo_env ''bare'' (HTMLElement 0) [] (demo_loader, demo_world)) = Inr bare_metadata
   \<and> loadedMFEs (fst bare_loaded) = [''bare'' \<mapsto> bare_metadata]
   \<and> innerHTML (nodes (document (snd bare_loaded)) 0) = [app_root]
   \<and> ext (snd bare_loaded) = 1
   \<and> calls_of (trace (snd bare_loaded))
       = [CallInitFederation, CallLoadRemoteModule ''bare'' ''./bootstrap'', CallMount 0]
   \<and> last (trace (snd bare_loaded)) = ConsoleLog (''MFE '' @ quoted ''bare'' @ '' loaded successfully'')
   \<and> fst (unloadMFE ''bare'' bare_loaded) = Inr True
   \<and> loadedMFEs (fst (snd (unloadMFE ''bare'' bare_loaded))) = Map.empty
   \<and> innerHTML (nodes (document (snd (snd (unloadMFE ''bare'' bare_loaded)))) 0) = []
   \<and> ext (snd (snd (unloadMFE ''bare'' bare_loaded))) = 1
   \<and> trace (snd (snd (unloadMFE ''bare'' bare_loaded)))
       = trace (snd bare_loaded)
         @ [ConsoleLog ''Unloading MFE: bare'', Call (CallUnmount ''bare''),
            ConsoleWarn ''No unmount method available, clearing container manually'',
            ConsoleLog (''MFE '' @ quoted ''bare'' @ '' unloaded successfully'')]"
proof -
  define s3 where "s3 = snd (importRemoteModule demo_env ''bare''
          (demo_loader, emit (ConsoleLog (''Loading MFE: '' @ ''bare'')) demo_world))"
  note st = bare_loaded_state(5-9) [folded s3_def]
  have resolve: "getOrCreateContainer demo_env (HTMLElement 0) demo_world = (Inr (Some 0), demo_world)"
    by (simp add: getOrCreateContainer_def)
  have imported: "importRemoteModule demo_env ''bare''
                    (snd (unload_existing ''bare''
                       (demo_loader, emit (ConsoleLog (''Loading MFE: '' @ ''bare'')) demo_world)))
                    = (Inr (Some (module_of bare_mount)), fst s3, snd s3)"
    unfolding bare_loaded_state(3) using bare_loaded_state(4) by (simp add: prod_eq_iff s3_def)
  have fn: "js_or (js_or (mod_mount (module_of bare_mount)) (mod_bootstrap (module_of bare_mount)))
      (mod_default_mount (module_of bare_mount)) = Function bare_mount"
    by (simp add: module_of_def js_or_def)
  have mounted: "bare_mount 0 [] (document (snd s3), ext (snd s3))
                   = (Inr (Object Missing Missing), appendChild 0 app_root demo_dom, 1)"
    by (simp add: bare_mount_def st)
  have bare: "\<not> has_unmount (Object Missing Missing :: nat mfeInstance)"
    by (simp add: has_unmount_def)
  note subst = default_teardown_substituted [OF resolve imported fn mounted bare]
  from subst have unload:
       "fst (unloadMFE ''bare'' (fst (snd (loadMFE demo_env ''bare'' (HTMLElement 0) [] (demo_loader, demo_world))), w2)) = Inr True
         \<and> loadedMFEs (fst (snd (unloadMFE ''bare'' (fst (snd (loadMFE demo_env ''bare'' (HTMLElement 0) [] (demo_loader, demo_world))), w2))))
             = (loadedMFEs (fst s3))(''bare'' := None)
         \<and> document (snd (snd (unloadMFE ''bare'' (fst (snd (loadMFE demo_env ''bare'' (HTMLElement 0) [] (demo_loader, demo_world))), w2))))
             = set_innerHTML 0 [] (document w2)
         \<and> ext (snd (snd (unloadMFE ''bare'' (fst (snd (loadMFE demo_env ''bare'' (HTMLElement 0) [] (demo_loader, demo_world))), w2)))) = ext w2
         \<and> trace (snd (snd (unloadMFE ''bare'' (fst (snd (loadMFE demo_env ''bare'' (HTMLElement 0) [] (demo_loader, demo_world))), w2))))
             = trace w2 @ [ConsoleLog (''Unloading MFE: '' @ ''bare''), Call (CallUnmount ''bare''),
                           ConsoleWarn ''No unmount method available, clearing container manually'',
                           ConsoleLog (''MFE '' @ quoted ''bare'' @ '' unloaded successfully'')]"
    for w2 :: "nat world"
    by blast
  from subst unload [of "snd bare_loaded"] show ?thesis
    using st by (simp add: bare_loaded_state(2) bare_metadata_def appendChild_def set_innerHTML_def
        demo_dom_def)
qed

end
